theory Spec2Isabelle
  imports Complex_Main "HOL-Library.AList" "HOL-Library.Sublist"
begin

section \<open>Python values\<close>

text \<open>
  The claims of a license are a Python dictionary that is serialised as JSON. The values
  that occur are integers, strings, lists and nested dictionaries. A dictionary keeps its
  keys in insertion order, so it is an association list: \<open>map_of\<close> is \<open>d.get(k)\<close>,
  \<open>AList.update\<close> is \<open>d[k] = v\<close> (in place for a key that is there, at the end for
  a new one).
\<close>

datatype json = JInt int | JStr string | JList "json list" | JObj "(string \<times> json) list"

type_synonym pydict = "(string \<times> json) list"

text \<open>Python's truth value of a JSON value, as \<open>not x\<close> and \<open>if x\<close> read it.\<close>

fun truthy :: "json \<Rightarrow> bool" where
  "truthy (JInt n) = (n \<noteq> 0)"
| "truthy (JStr s) = (s \<noteq> [])"
| "truthy (JList xs) = (xs \<noteq> [])"
| "truthy (JObj d) = (d \<noteq> [])"

text \<open>The truth value of an \<open>Optional[str]\<close> argument: \<open>None\<close> and \<open>""\<close> are false.\<close>

fun truthy_str :: "string option \<Rightarrow> bool" where
  "truthy_str None = False"
| "truthy_str (Some s) = (s \<noteq> [])"

section \<open>Errors\<close>

text \<open>
  The issuer raises \<open>ValueError\<close> (\<open>InvalidParameters\<close>); the \<open>OverflowError\<close> that
  \<open>timedelta\<close> and the addition of a \<open>timedelta\<close> to a \<open>datetime\<close> raise out of their
  range is \<open>OutOfRange\<close>. The verifier raises
  \<open>LicenseVerificationError\<close> with one message per cause; the constructors name the causes:
  \<^item> \<open>Malformed\<close>: "License decode error: ..." and "Invalid license token: ...";
  \<^item> \<open>InvalidSignature\<close>: "Invalid license signature - possible tampering";
  \<^item> \<open>Expired\<close>: "License has expired";
  \<^item> \<open>UntrustedIssuer\<close>: "Invalid issuer: expected ..., got ...";
  \<^item> \<open>ProductMismatch\<close>: "License is for module ..., not ...";
  \<^item> \<open>VersionNotAllowed\<close>: "Odoo version ... not allowed. Allowed versions: ...";
  \<^item> \<open>BindingContextMissing\<close>: "License is bound to an instance, but instance details not provided";
  \<^item> \<open>InstanceMismatch\<close>: "Instance fingerprint mismatch. ...";
  \<^item> \<open>PolicyViolation\<close>: "Demo license must have expiration".
  \<open>Uncaught\<close> is a Python \<open>TypeError\<close> or \<open>AttributeError\<close> that no \<open>except\<close> clause
  of the verifier catches: it arises only from a claim whose JSON type is not the one the
  operation applied to it needs.
\<close>

datatype license_error =
    InvalidParameters
  | OutOfRange
  | Malformed
  | InvalidSignature
  | Expired
  | UntrustedIssuer
  | ProductMismatch
  | VersionNotAllowed
  | BindingContextMissing
  | InstanceMismatch
  | PolicyViolation
  | Uncaught

section \<open>The libraries the code calls\<close>

text \<open>
  Ed25519, SHA-256, the ISO formatting of a timestamp and Python's \<open>int()\<close> of a string are
  library functions. They are parameters of the model: \<open>ed25519_sign\<close> is
  \<open>private_key.sign\<close>, \<open>ed25519_verify\<close> is \<open>public_key.verify\<close> as a truth value,
  \<open>sha256_hexdigest\<close> is \<open>hashlib.sha256(b).hexdigest()\<close>, \<open>isoformat\<close> is
  \<open>datetime.fromtimestamp(ts, tz=timezone.utc).isoformat()\<close>, taken to be defined on every
  integer, and \<open>int_of_str\<close> is \<open>int(s)\<close>, \<open>None\<close> where it raises \<open>ValueError\<close>.
\<close>

record ('sk, 'pk) crypto =
  ed25519_sign :: "'sk \<Rightarrow> string \<Rightarrow> string"
  ed25519_verify :: "'pk \<Rightarrow> string \<Rightarrow> string \<Rightarrow> bool"
  sha256_hexdigest :: "string \<Rightarrow> string"
  isoformat :: "int \<Rightarrow> string"
  int_of_str :: "string \<Rightarrow> int option"

subsection \<open>Time\<close>

text \<open>
  A reading of the wall clock by the issuer, \<open>datetime.now(timezone.utc)\<close>, is a number of
  microseconds since the Unix epoch; the clock is taken to be at or after the epoch, so a
  reading is a natural number. A \<open>datetime\<close> in general (an expiry time) is an integer number
  of microseconds between \<open>datetime_min\<close> (year 1) and \<open>datetime_max\<close> (the last microsecond
  of year 9999); a \<open>timedelta\<close> holds at most 999999999 days. \<open>datetime_plus_days t d\<close> is
  \<open>t + timedelta(days=d)\<close> with the \<open>OverflowError\<close> of either step.

  \<open>timestamp\<close> is \<open>datetime.timestamp()\<close>, in seconds, computed exactly, and \<open>py_int\<close> is
  Python's \<open>int()\<close> of it, which truncates towards zero. The code computes the timestamp as
  the nearest float64. Below \<open>2 ^ 33\<close> seconds (year 2242) that float is within half a
  microsecond of the exact value, so \<open>int()\<close> of it is \<open>int()\<close> of the exact value;
  \<open>exact_seconds\<close> is that range, and the theorems that relate \<open>exp\<close> to \<open>iat\<close> and to
  the verifier's clock are stated inside it. What the float gives beyond it is not modelled.

  The verifier only compares timestamps with integers. Its clock readings are given to
  the model as the values that \<open>datetime.now(timezone.utc).timestamp()\<close> returned, which are
  rational numbers, so these comparisons are the ones of the code.
\<close>

definition timestamp :: "int \<Rightarrow> rat" where
  "timestamp us = of_int us / 1000000"

definition py_int :: "rat \<Rightarrow> int" where
  "py_int q = (if 0 \<le> q then \<lfloor>q\<rfloor> else \<lceil>q\<rceil>)"

definition timedelta_days :: "int \<Rightarrow> int" where
  "timedelta_days d = d * 86400000000"

definition datetime_min :: int where
  "datetime_min = - 62135596800000000"

definition datetime_max :: int where
  "datetime_max = 253402300799999999"

definition datetime_plus_days :: "int \<Rightarrow> int \<Rightarrow> license_error + int" where
  "datetime_plus_days t d =
     (if d < - 999999999 \<or> 999999999 < d then Inl OutOfRange
      else if t + timedelta_days d < datetime_min \<or> datetime_max < t + timedelta_days d
        then Inl OutOfRange
      else Inr (t + timedelta_days d))"

definition exact_seconds :: "int \<Rightarrow> bool" where
  "exact_seconds us = (0 \<le> us \<and> us < 8589934592000000)"

subsection \<open>JSON text and base64url\<close>

text \<open>
  \<open>json.dumps(x, separators=(",", ":"))\<close>: the keys of a dictionary are written in the
  order the dictionary holds them. A character of a string is a code point below 256; the
  quote, the backslash and the control characters are escaped, and so is every character
  that is not ASCII, as \<open>\u00XX\<close>.
\<close>

definition digit_char :: "nat \<Rightarrow> char" where
  "digit_char n = char_of (48 + n)"

function dec_nat :: "nat \<Rightarrow> string" where
  "dec_nat n = (if n < 10 then [digit_char n] else dec_nat (n div 10) @ [digit_char (n mod 10)])"
  by pat_completeness auto
termination
  by (relation "measure id") auto

declare dec_nat.simps [simp del]

definition dec_int :: "int \<Rightarrow> string" where
  "dec_int i = (if i < 0 then CHR ''-'' # dec_nat (nat (- i)) else dec_nat (nat i))"

definition hex_char :: "nat \<Rightarrow> char" where
  "hex_char n = (if n < 10 then char_of (48 + n) else char_of (87 + n))"

definition escape_char :: "char \<Rightarrow> string" where
  "escape_char c =
     (let n = (of_char c :: nat) in
      if n = 34 then [CHR 0x5C, CHR 0x22]
      else if n = 92 then [CHR 0x5C, CHR 0x5C]
      else if n = 10 then [CHR 0x5C, CHR ''n'']
      else if n = 13 then [CHR 0x5C, CHR ''r'']
      else if n = 9 then [CHR 0x5C, CHR ''t'']
      else if n = 8 then [CHR 0x5C, CHR ''b'']
      else if n = 12 then [CHR 0x5C, CHR ''f'']
      else if n < 32 \<or> 127 < n
        then [CHR 0x5C, CHR ''u'', CHR ''0'', CHR ''0'', hex_char (n div 16), hex_char (n mod 16)]
      else [c])"

definition json_quote :: "string \<Rightarrow> string" where
  "json_quote s = CHR 0x22 # concat (map escape_char s) @ [CHR 0x22]"

fun join :: "string \<Rightarrow> string list \<Rightarrow> string" where
  "join sep [] = []"
| "join sep [x] = x"
| "join sep (x # y # ys) = x @ sep @ join sep (y # ys)"

fun json_dumps :: "json \<Rightarrow> string" where
  "json_dumps (JInt i) = dec_int i"
| "json_dumps (JStr s) = json_quote s"
| "json_dumps (JList xs) = ''['' @ join '','' (map json_dumps xs) @ '']''"
| "json_dumps (JObj d) =
     ''{'' @ join '','' (map (\<lambda>kv. json_quote (fst kv) @ '':'' @ json_dumps (snd kv)) d) @ ''}''"

text \<open>\<open>base64url_encode\<close> of PyJWT: the URL-safe alphabet, the padding stripped.\<close>

definition b64_alphabet :: string where
  "b64_alphabet = ''ABCDEFGHIJKLMNOPQRSTUVWXYZabcdefghijklmnopqrstuvwxyz0123456789-_''"

fun b64_sextets :: "nat list \<Rightarrow> nat list" where
  "b64_sextets [] = []"
| "b64_sextets [a] = [a div 4, (a mod 4) * 16]"
| "b64_sextets [a, b] = [a div 4, (a mod 4) * 16 + b div 16, (b mod 16) * 4]"
| "b64_sextets (a # b # c # bs) =
     [a div 4, (a mod 4) * 16 + b div 16, (b mod 16) * 4 + c div 64, c mod 64] @ b64_sextets bs"

definition base64url_encode :: "string \<Rightarrow> string" where
  "base64url_encode s = map (\<lambda>n. b64_alphabet ! n) (b64_sextets (map of_char s))"

section \<open>Signed tokens\<close>

text \<open>
  A token string is one of three things. \<open>Undecodable\<close>: \<open>jwt.decode\<close> cannot split it into
  three base64url segments with a JSON object for header; the library raises \<open>DecodeError\<close>
  before it looks at the signature. \<open>NonJsonPayload\<close>: it has a header, payload bytes that
  are not a JSON object, and a signature; the library checks the signature and then raises
  \<open>DecodeError\<close>. \<open>Jwt\<close>: the header and the payload are the dictionaries the segments
  decode to, with their keys in the order they have on the wire. The bytes that are signed
  are those of the first two segments; for a dictionary they are its compact JSON text,
  base64url-encoded.
\<close>

record jwt =
  jwt_header :: pydict
  jwt_payload :: pydict
  jwt_signature :: string

datatype token = Undecodable string | NonJsonPayload pydict string string | Jwt jwt

definition signing_input :: "pydict \<Rightarrow> pydict \<Rightarrow> string" where
  "signing_input hdr pl =
     base64url_encode (json_dumps (JObj hdr)) @ ''.'' @ base64url_encode (json_dumps (JObj pl))"

definition signing_input_raw :: "pydict \<Rightarrow> string \<Rightarrow> string" where
  "signing_input_raw hdr raw =
     base64url_encode (json_dumps (JObj hdr)) @ ''.'' @ base64url_encode raw"

text \<open>
  \<open>jwt.encode(payload, key, algorithm="EdDSA", headers={"kid": kid})\<close>: the header is
  written with its keys sorted, the payload with its keys in the order the dictionary holds
  them (\<open>json.dumps\<close> without \<open>sort_keys\<close>), and the signature is over the two encoded
  segments.
\<close>

definition encode_header :: "string \<Rightarrow> pydict" where
  "encode_header kid = [(''alg'', JStr ''EdDSA''), (''kid'', JStr kid), (''typ'', JStr ''JWT'')]"

definition jwt_encode :: "('sk, 'pk) crypto \<Rightarrow> pydict \<Rightarrow> 'sk \<Rightarrow> string \<Rightarrow> token" where
  "jwt_encode lib payload key kid =
     (let hdr = encode_header kid
      in Jwt \<lparr>jwt_header = hdr, jwt_payload = payload,
              jwt_signature = ed25519_sign lib key (signing_input hdr payload)\<rparr>)"

text \<open>The signature bytes of a token.\<close>

definition token_signature :: "token \<Rightarrow> string" where
  "token_signature tok =
     (case tok of
        Undecodable s \<Rightarrow> []
      | NonJsonPayload hdr raw sg \<Rightarrow> sg
      | Jwt t \<Rightarrow> jwt_signature t)"

text \<open>
  The exceptions of \<open>jwt.decode\<close>. All are \<open>InvalidTokenError\<close>s but the last, the
  \<open>TypeError\<close> that \<open>int()\<close> raises on a list or a dictionary, which the library lets
  through.
\<close>

datatype jwt_error =
    DecodeError
  | InvalidAlgorithmError
  | InvalidSignatureError
  | MissingRequiredClaimError
  | InvalidIssuedAtError
  | ImmatureSignatureError
  | InvalidAudienceError
  | InvalidSubjectError
  | InvalidJTIError
  | PyTypeError

text \<open>
  \<open>int(x)\<close> of a claim, as the library applies it to \<open>iat\<close> and \<open>nbf\<close>: the integer, a
  \<open>ValueError\<close> for a string that is not a number, a \<open>TypeError\<close> for a list or a dictionary.
\<close>

datatype int_result = IntValue int | ValueErr | TypeErr

fun py_int_of :: "('sk, 'pk) crypto \<Rightarrow> json \<Rightarrow> int_result" where
  "py_int_of lib (JInt n) = IntValue n"
| "py_int_of lib (JStr s) = (case int_of_str lib s of None \<Rightarrow> ValueErr | Some n \<Rightarrow> IntValue n)"
| "py_int_of lib (JList xs) = TypeErr"
| "py_int_of lib (JObj d) = TypeErr"

text \<open>The truth value of \<open>d.get(k)\<close>: \<open>None\<close> is false.\<close>

fun truthy_get :: "json option \<Rightarrow> bool" where
  "truthy_get None = False"
| "truthy_get (Some x) = truthy x"

text \<open>
  The validation of the claims by \<open>jwt.decode\<close> under the options of the call
  (\<open>"verify_exp": False\<close>, \<open>"require": ["jti", "iss", "iat"]\<close>, no audience, issuer or
  subject given), in the order of the library (PyJWT 2.10): the required claims are there;
  \<open>iat\<close> is a number that is not after the library's own reading of the clock; so is \<open>nbf\<close>
  if present; there is no \<open>aud\<close> claim, or an empty one; \<open>sub\<close>, if present, and \<open>jti\<close> are
  strings. \<open>now\<close> is the timestamp of that reading.
\<close>

definition validate_claims :: "('sk, 'pk) crypto \<Rightarrow> pydict \<Rightarrow> rat \<Rightarrow> jwt_error + pydict" where
  "validate_claims lib payload now =
     (if map_of payload ''jti'' = None \<or> map_of payload ''iss'' = None
         \<or> map_of payload ''iat'' = None
        then Inl MissingRequiredClaimError
      else
        case py_int_of lib (the (map_of payload ''iat'')) of
          TypeErr \<Rightarrow> Inl PyTypeError
        | ValueErr \<Rightarrow> Inl InvalidIssuedAtError
        | IntValue iat \<Rightarrow>
            if now < of_int iat then Inl ImmatureSignatureError
            else
              case (case map_of payload ''nbf'' of
                      None \<Rightarrow> IntValue 0
                    | Some x \<Rightarrow> py_int_of lib x) of
                TypeErr \<Rightarrow> Inl PyTypeError
              | ValueErr \<Rightarrow> Inl DecodeError
              | IntValue nbf \<Rightarrow>
                  if map_of payload ''nbf'' \<noteq> None \<and> now < of_int nbf
                    then Inl ImmatureSignatureError
                  else if truthy_get (map_of payload ''aud'') then Inl InvalidAudienceError
                  else if (case map_of payload ''sub'' of
                             None \<Rightarrow> False | Some (JStr s) \<Rightarrow> False | Some _ \<Rightarrow> True)
                    then Inl InvalidSubjectError
                  else if (case map_of payload ''jti'' of Some (JStr s) \<Rightarrow> False | _ \<Rightarrow> True)
                    then Inl InvalidJTIError
                  else Inr payload)"

text \<open>
  \<open>jwt.decode(token, key, algorithms=["EdDSA"], options={"verify_signature": True,
  "verify_exp": False, "require": ["jti", "iss", "iat"]})\<close>: the token loads, its algorithm is
  the one allowed, the signature verifies under the key, the payload is a JSON object, and
  the claims are valid.
\<close>

definition jwt_decode :: "('sk, 'pk) crypto \<Rightarrow> 'pk \<Rightarrow> rat \<Rightarrow> token \<Rightarrow> jwt_error + pydict" where
  "jwt_decode lib key now tok =
     (case tok of
        Undecodable s \<Rightarrow> Inl DecodeError
      | NonJsonPayload hdr raw sg \<Rightarrow>
          if map_of hdr ''alg'' \<noteq> Some (JStr ''EdDSA'') then Inl InvalidAlgorithmError
          else if \<not> ed25519_verify lib key (signing_input_raw hdr raw) sg
            then Inl InvalidSignatureError
          else Inl DecodeError
      | Jwt t \<Rightarrow>
          if map_of (jwt_header t) ''alg'' \<noteq> Some (JStr ''EdDSA'') then Inl InvalidAlgorithmError
          else if \<not> ed25519_verify lib key (signing_input (jwt_header t) (jwt_payload t)) (jwt_signature t)
            then Inl InvalidSignatureError
          else validate_claims lib (jwt_payload t) now)"

text \<open>
  \<open>jwt.decode(token, options={"verify_signature": False})\<close>: the token loads and the payload
  is a JSON object; with the signature not verified, the library validates no claim.
\<close>

definition jwt_decode_unverified :: "token \<Rightarrow> jwt_error + pydict" where
  "jwt_decode_unverified tok =
     (case tok of
        Undecodable s \<Rightarrow> Inl DecodeError
      | NonJsonPayload hdr raw sg \<Rightarrow> Inl DecodeError
      | Jwt t \<Rightarrow> Inr (jwt_payload t))"

section \<open>Issuer\<close>

record 'sk license_service =
  private_key :: 'sk
  key_id :: string
  issuer :: string

definition valid_types :: "string list" where
  "valid_types = [''perpetual'', ''subscription'', ''demo'']"

text \<open>
  \<open>generate_instance_fingerprint\<close> of the server and the proof of concept, and
  \<open>_generate_fingerprint\<close> of the verifier, are the same function.
\<close>

definition generate_instance_fingerprint :: "('sk, 'pk) crypto \<Rightarrow> string \<Rightarrow> string \<Rightarrow> string" where
  "generate_instance_fingerprint lib db_uuid domain =
     ''sha256:'' @ sha256_hexdigest lib (db_uuid @ '':'' @ domain)"

text \<open>
  \<open>LicenseService.issue_license\<close> (server/services.py). \<open>now\<close> is the one reading of the
  clock the function makes. \<open>now + timedelta(days=duration_days)\<close> is evaluated for a
  subscription or demo license only, and raises \<open>OverflowError\<close> out of range.
\<close>

definition issue_license ::
  "('sk, 'pk) crypto \<Rightarrow> 'sk license_service \<Rightarrow> nat \<Rightarrow> string \<Rightarrow> string \<Rightarrow> string \<Rightarrow> string
     \<Rightarrow> string list \<Rightarrow> string \<Rightarrow> int option \<Rightarrow> string option \<Rightarrow> license_error + token" where
  "issue_license lib svc now license_id customer_id customer_name module_name allowed_versions
       license_type duration_days instance_fingerprint =
     (if license_type \<notin> set valid_types then Inl InvalidParameters
      else
        let issued_at = py_int (timestamp (int now)) in
        case (if license_type \<in> set [''subscription'', ''demo'']
              then (case duration_days of
                      None \<Rightarrow> Inl InvalidParameters
                    | Some d \<Rightarrow>
                        (case datetime_plus_days (int now) d of
                           Inl e \<Rightarrow> Inl e
                         | Inr expiry_time \<Rightarrow> Inr (Some (py_int (timestamp expiry_time)))))
              else Inr None) of
          Inl e \<Rightarrow> Inl e
        | Inr expires_at \<Rightarrow>
            let payload =
                  [(''jti'', JStr license_id),
                   (''iss'', JStr (issuer svc)),
                   (''iat'', JInt issued_at),
                   (''customer'', JObj [(''id'', JStr customer_id), (''name'', JStr customer_name)]),
                   (''module'', JObj [(''technical_name'', JStr module_name),
                                     (''allowed_major_versions'', JList (map JStr allowed_versions))]),
                   (''license_type'', JStr license_type)];
                payload =
                  (case expires_at of
                     None \<Rightarrow> payload
                   | Some e \<Rightarrow> AList.update ''exp'' (JInt e) payload);
                payload =
                  (if truthy_str instance_fingerprint
                   then AList.update ''instance_fingerprint'' (JStr (the instance_fingerprint)) payload
                   else payload)
            in Inr (jwt_encode lib payload (private_key svc) (key_id svc)))"

text \<open>
  \<open>LicenseIssuer.issue_license\<close> (poc/issue_license.py): the issuer string is fixed and the
  license id is drawn by \<open>uuid.uuid4()\<close>, here the argument \<open>license_id\<close>.
\<close>

record 'sk license_issuer =
  poc_private_key :: 'sk
  poc_key_id :: string

definition poc_issuer :: string where
  "poc_issuer = ''https://license.biz4a.com''"

definition poc_issue_license ::
  "('sk, 'pk) crypto \<Rightarrow> 'sk license_issuer \<Rightarrow> nat \<Rightarrow> string \<Rightarrow> string \<Rightarrow> string \<Rightarrow> string
     \<Rightarrow> string list \<Rightarrow> string \<Rightarrow> int option \<Rightarrow> string option \<Rightarrow> license_error + token" where
  "poc_issue_license lib iss now license_id customer_id customer_name module_name allowed_versions
       license_type duration_days instance_fingerprint =
     (if license_type \<notin> set valid_types then Inl InvalidParameters
      else
        let issued_at = py_int (timestamp (int now)) in
        case (if license_type \<in> set [''subscription'', ''demo'']
              then (case duration_days of
                      None \<Rightarrow> Inl InvalidParameters
                    | Some d \<Rightarrow>
                        (case datetime_plus_days (int now) d of
                           Inl e \<Rightarrow> Inl e
                         | Inr expiry_time \<Rightarrow> Inr (Some (py_int (timestamp expiry_time)))))
              else Inr None) of
          Inl e \<Rightarrow> Inl e
        | Inr expires_at \<Rightarrow>
            let payload =
                  [(''jti'', JStr license_id),
                   (''iss'', JStr poc_issuer),
                   (''iat'', JInt issued_at),
                   (''customer'', JObj [(''id'', JStr customer_id), (''name'', JStr customer_name)]),
                   (''module'', JObj [(''technical_name'', JStr module_name),
                                     (''allowed_major_versions'', JList (map JStr allowed_versions))]),
                   (''license_type'', JStr license_type)];
                payload =
                  (case expires_at of
                     None \<Rightarrow> payload
                   | Some e \<Rightarrow> AList.update ''exp'' (JInt e) payload);
                payload =
                  (if truthy_str instance_fingerprint
                   then AList.update ''instance_fingerprint'' (JStr (the instance_fingerprint)) payload
                   else payload)
            in Inr (jwt_encode lib payload (poc_private_key iss) (poc_key_id iss)))"

section \<open>Verifier\<close>

record 'pk license_verifier =
  public_key :: 'pk
  expected_issuer :: string

text \<open>
  The \<open>except\<close> clauses of \<open>verify_license\<close>, in their order: \<open>InvalidSignatureError\<close>
  has its own message, \<open>DecodeError\<close> and every other \<open>InvalidTokenError\<close> are reported
  as a token that cannot be read, and a \<open>TypeError\<close> is not caught.
\<close>

fun except_clauses :: "jwt_error \<Rightarrow> license_error" where
  "except_clauses InvalidSignatureError = InvalidSignature"
| "except_clauses DecodeError = Malformed"
| "except_clauses InvalidAlgorithmError = Malformed"
| "except_clauses MissingRequiredClaimError = Malformed"
| "except_clauses InvalidIssuedAtError = Malformed"
| "except_clauses ImmatureSignatureError = Malformed"
| "except_clauses InvalidAudienceError = Malformed"
| "except_clauses InvalidSubjectError = Malformed"
| "except_clauses InvalidJTIError = Malformed"
| "except_clauses PyTypeError = Uncaught"

text \<open>
  The Python operations the verifier applies to claims, with the exception each raises on
  a value of the wrong type:
  \<^item> \<open>now_timestamp >= x\<close> is defined for a number only;
  \<^item> \<open>x.get(k)\<close> is defined for a dictionary only;
  \<^item> \<open>s in x\<close> for a string \<open>s\<close> is membership in a list, the substring test on a
    string, key membership in a dictionary, and a \<open>TypeError\<close> on a number.
\<close>

fun py_ge :: "rat \<Rightarrow> json \<Rightarrow> license_error + bool" where
  "py_ge q (JInt e) = Inr (of_int e \<le> q)"
| "py_ge q x = Inl Uncaught"

fun py_get :: "json \<Rightarrow> string \<Rightarrow> license_error + json option" where
  "py_get (JObj d) k = Inr (map_of d k)"
| "py_get x k = Inl Uncaught"

fun py_in :: "string \<Rightarrow> json \<Rightarrow> license_error + bool" where
  "py_in s (JList xs) = Inr (JStr s \<in> set xs)"
| "py_in s (JStr t) = Inr (sublist s t)"
| "py_in s (JObj d) = Inr (s \<in> fst ` set d)"
| "py_in s (JInt n) = Inl Uncaught"

definition py_get_default :: "pydict \<Rightarrow> string \<Rightarrow> json \<Rightarrow> json" where
  "py_get_default d k dflt = (case map_of d k of None \<Rightarrow> dflt | Some x \<Rightarrow> x)"

text \<open>
  \<open>LicenseVerifier.verify_license\<close> (odoo/addons/aegis_client/models/license_verifier.py;
  the verifier of the proof of concept has the same body). The clock is read twice:
  \<open>decode_now\<close> is the timestamp \<open>jwt.decode\<close> reads to validate the claims, \<open>now\<close> is
  \<open>now_timestamp\<close>, which the function reads when the payload has an \<open>exp\<close> claim.
\<close>

definition verify_license ::
  "('sk, 'pk) crypto \<Rightarrow> 'pk license_verifier \<Rightarrow> rat \<Rightarrow> rat \<Rightarrow> token \<Rightarrow> string \<Rightarrow> string
     \<Rightarrow> string option \<Rightarrow> string option \<Rightarrow> license_error + pydict" where
  "verify_license lib v decode_now now license_token module_name odoo_version
       instance_db_uuid instance_domain =
     (case jwt_decode lib (public_key v) decode_now license_token of
        Inl e \<Rightarrow> Inl (except_clauses e)
      | Inr payload \<Rightarrow>
          (case (case map_of payload ''exp'' of
                   None \<Rightarrow> Inr False
                 | Some exp_timestamp \<Rightarrow> py_ge now exp_timestamp) of
             Inl e \<Rightarrow> Inl e
           | Inr expired \<Rightarrow>
               if expired then Inl Expired
               else if map_of payload ''iss'' \<noteq> Some (JStr (expected_issuer v)) then Inl UntrustedIssuer
               else
                 let module_info = py_get_default payload ''module'' (JObj []) in
                 (case py_get module_info ''technical_name'' of
                    Inl e \<Rightarrow> Inl e
                  | Inr technical_name \<Rightarrow>
                      if technical_name \<noteq> Some (JStr module_name) then Inl ProductMismatch
                      else
                        (case py_get module_info ''allowed_major_versions'' of
                           Inl e \<Rightarrow> Inl e
                         | Inr allowed \<Rightarrow>
                             (case py_in odoo_version
                                     (case allowed of None \<Rightarrow> JList [] | Some xs \<Rightarrow> xs) of
                                Inl e \<Rightarrow> Inl e
                              | Inr is_allowed \<Rightarrow>
                                  if \<not> is_allowed then Inl VersionNotAllowed
                                  else if map_of payload ''instance_fingerprint'' \<noteq> None
                                          \<and> (\<not> truthy_str instance_db_uuid \<or> \<not> truthy_str instance_domain)
                                    then Inl BindingContextMissing
                                  else if map_of payload ''instance_fingerprint'' \<noteq> None
                                          \<and> map_of payload ''instance_fingerprint'' \<noteq>
                                              Some (JStr (generate_instance_fingerprint lib
                                                     (the instance_db_uuid) (the instance_domain)))
                                    then Inl InstanceMismatch
                                  else if map_of payload ''license_type'' = Some (JStr ''demo'')
                                          \<and> \<not> truthy_get (map_of payload ''exp'')
                                    then Inl PolicyViolation
                                  else Inr payload)))))"

text \<open>
  \<open>LicenseVerifier.get_license_info\<close>. \<open>_format_timestamp\<close> raises a \<open>TypeError\<close> on a
  value that is not a number; \<open>get_license_info\<close> catches every exception and returns the
  dictionary with the one key \<open>error\<close>, here \<open>InfoError\<close>. The range of
  \<open>datetime.fromtimestamp\<close> is that of \<open>isoformat\<close>, a parameter.
\<close>

record license_info =
  info_license_id :: "json option"
  info_customer :: json
  info_module :: json
  info_license_type :: "json option"
  info_issued_at :: "string option"
  info_expires_at :: "string option"
  info_is_bound :: bool

datatype info_result = InfoError | Info license_info

fun format_timestamp :: "('sk, 'pk) crypto \<Rightarrow> json option \<Rightarrow> license_error + string option" where
  "format_timestamp lib None = Inr None"
| "format_timestamp lib (Some (JInt ts)) = Inr (Some (isoformat lib ts))"
| "format_timestamp lib (Some x) = Inl Uncaught"

definition get_license_info :: "('sk, 'pk) crypto \<Rightarrow> token \<Rightarrow> info_result" where
  "get_license_info lib license_token =
     (case jwt_decode_unverified license_token of
        Inl e \<Rightarrow> InfoError
      | Inr payload \<Rightarrow>
          (case format_timestamp lib (map_of payload ''iat'') of
             Inl e \<Rightarrow> InfoError
           | Inr iat \<Rightarrow>
               (case format_timestamp lib (map_of payload ''exp'') of
                  Inl e \<Rightarrow> InfoError
                | Inr expires \<Rightarrow>
                    Info \<lparr>info_license_id = map_of payload ''jti'',
                          info_customer = py_get_default payload ''customer'' (JObj []),
                          info_module = py_get_default payload ''module'' (JObj []),
                          info_license_type = map_of payload ''license_type'',
                          info_issued_at = iat,
                          info_expires_at = expires,
                          info_is_bound = (map_of payload ''instance_fingerprint'' \<noteq> None)\<rparr>)))"

section \<open>The verification pipeline\<close>

text \<open>
  The data model gives every claim a type. The readers below read a claim at its type; a
  claim that is absent, or holds a value of another JSON type, reads as \<open>None\<close> (as the
  empty list, for the versions).
\<close>

definition claim_issued_at :: "pydict \<Rightarrow> int option" where
  "claim_issued_at p = (case map_of p ''iat'' of Some (JInt t) \<Rightarrow> Some t | _ \<Rightarrow> None)"

definition claim_expires_at :: "pydict \<Rightarrow> int option" where
  "claim_expires_at p = (case map_of p ''exp'' of Some (JInt e) \<Rightarrow> Some e | _ \<Rightarrow> None)"

definition claim_issuer :: "pydict \<Rightarrow> string option" where
  "claim_issuer p = (case map_of p ''iss'' of Some (JStr s) \<Rightarrow> Some s | _ \<Rightarrow> None)"

definition claim_license_kind :: "pydict \<Rightarrow> string option" where
  "claim_license_kind p = (case map_of p ''license_type'' of Some (JStr s) \<Rightarrow> Some s | _ \<Rightarrow> None)"

definition claim_product_name :: "pydict \<Rightarrow> string option" where
  "claim_product_name p =
     (case map_of p ''module'' of
        Some (JObj m) \<Rightarrow> (case map_of m ''technical_name'' of Some (JStr s) \<Rightarrow> Some s | _ \<Rightarrow> None)
      | _ \<Rightarrow> None)"

definition claim_allowed_versions :: "pydict \<Rightarrow> string list" where
  "claim_allowed_versions p =
     (case map_of p ''module'' of
        Some (JObj m) \<Rightarrow>
          (case map_of m ''allowed_major_versions'' of
             Some (JList xs) \<Rightarrow> concat (map (\<lambda>x. case x of JStr s \<Rightarrow> [s] | _ \<Rightarrow> []) xs)
           | _ \<Rightarrow> [])
      | _ \<Rightarrow> [])"

definition claim_instance_fingerprint :: "pydict \<Rightarrow> string option" where
  "claim_instance_fingerprint p =
     (case map_of p ''instance_fingerprint'' of Some (JStr s) \<Rightarrow> Some s | _ \<Rightarrow> None)"

text \<open>
  \<open>claims_typed\<close>: the claims whose type matters to the Python operations of the verifier
  and of the library have the type of the data model, where they are present: \<open>iat\<close>,
  \<open>nbf\<close> and \<open>exp\<close> are integers, \<open>jti\<close>, \<open>sub\<close> and \<open>instance_fingerprint\<close> are strings,
  \<open>module\<close> is a dictionary and its versions are a list.
\<close>

definition claims_typed :: "pydict \<Rightarrow> bool" where
  "claims_typed p =
     ((case map_of p ''exp'' of None \<Rightarrow> True | Some (JInt e) \<Rightarrow> True | Some _ \<Rightarrow> False)
    \<and> (case map_of p ''module'' of
          None \<Rightarrow> True
        | Some (JObj m) \<Rightarrow>
            (case map_of m ''allowed_major_versions'' of
               None \<Rightarrow> True | Some (JList xs) \<Rightarrow> True | Some _ \<Rightarrow> False)
        | Some _ \<Rightarrow> False)
    \<and> (case map_of p ''instance_fingerprint'' of
          None \<Rightarrow> True | Some (JStr s) \<Rightarrow> True | Some _ \<Rightarrow> False)
    \<and> (case map_of p ''iat'' of None \<Rightarrow> True | Some (JInt t) \<Rightarrow> True | Some _ \<Rightarrow> False)
    \<and> (case map_of p ''nbf'' of None \<Rightarrow> True | Some (JInt t) \<Rightarrow> True | Some _ \<Rightarrow> False)
    \<and> (case map_of p ''jti'' of None \<Rightarrow> True | Some (JStr s) \<Rightarrow> True | Some _ \<Rightarrow> False)
    \<and> (case map_of p ''sub'' of None \<Rightarrow> True | Some (JStr s) \<Rightarrow> True | Some _ \<Rightarrow> False))"

definition token_payload :: "token \<Rightarrow> pydict" where
  "token_payload tok =
     (case tok of
        Undecodable s \<Rightarrow> []
      | NonJsonPayload hdr raw sg \<Rightarrow> []
      | Jwt t \<Rightarrow> jwt_payload t)"

subsection \<open>The checks\<close>

text \<open>
  One definition per check; each returns the failure it finds, or \<open>None\<close>.
  \<open>structural_signature_check\<close>, \<open>mandatory_claims_check\<close>, \<open>expiry_check\<close>,
  \<open>issuer_check\<close>, \<open>product_check\<close>, \<open>version_check\<close>, \<open>specified_binding_check\<close> and
  \<open>policy_check\<close> follow the checks 1 to 8 of the specification, in its words: a context
  value is supplied when the caller gives one, and the policy asks for an expiry claim to
  be present. \<open>binding_check\<close> is the binding check with a context value counted as
  supplied only when it is a non-empty string. \<open>registered_claims_check\<close> is not among
  the checks of the specification: the token was not issued after the reading
  \<open>decode_now\<close> of the clock, it is not used before its \<open>nbf\<close> claim, and it names no
  audience.
\<close>

definition structural_signature_check :: "('sk, 'pk) crypto \<Rightarrow> 'pk \<Rightarrow> token \<Rightarrow> license_error option" where
  "structural_signature_check lib key tok =
     (case tok of
        Undecodable s \<Rightarrow> Some Malformed
      | NonJsonPayload hdr raw sg \<Rightarrow>
          if map_of hdr ''alg'' \<noteq> Some (JStr ''EdDSA'') then Some Malformed
          else if ed25519_verify lib key (signing_input_raw hdr raw) sg then Some Malformed
          else Some InvalidSignature
      | Jwt t \<Rightarrow>
          if map_of (jwt_header t) ''alg'' \<noteq> Some (JStr ''EdDSA'') then Some Malformed
          else if ed25519_verify lib key (signing_input (jwt_header t) (jwt_payload t)) (jwt_signature t)
            then None
          else Some InvalidSignature)"

definition mandatory_claims_check :: "pydict \<Rightarrow> license_error option" where
  "mandatory_claims_check p =
     (if list_all (\<lambda>k. map_of p k \<noteq> None) [''jti'', ''iss'', ''iat''] then None else Some Malformed)"

definition registered_claims_check :: "pydict \<Rightarrow> rat \<Rightarrow> license_error option" where
  "registered_claims_check p decode_now =
     (if (case claim_issued_at p of None \<Rightarrow> False | Some t \<Rightarrow> of_int t \<le> decode_now)
         \<and> (case map_of p ''nbf'' of
               None \<Rightarrow> True
             | Some (JInt t) \<Rightarrow> of_int t \<le> decode_now
             | Some _ \<Rightarrow> False)
         \<and> \<not> truthy_get (map_of p ''aud'')
      then None else Some Malformed)"

definition expiry_check :: "pydict \<Rightarrow> rat \<Rightarrow> license_error option" where
  "expiry_check p now =
     (case claim_expires_at p of
        None \<Rightarrow> None
      | Some expires_at \<Rightarrow> if of_int expires_at \<le> now then Some Expired else None)"

definition issuer_check :: "pydict \<Rightarrow> string \<Rightarrow> license_error option" where
  "issuer_check p expected = (if claim_issuer p = Some expected then None else Some UntrustedIssuer)"

definition product_check :: "pydict \<Rightarrow> string \<Rightarrow> license_error option" where
  "product_check p expected_product_name =
     (if claim_product_name p = Some expected_product_name then None else Some ProductMismatch)"

definition version_check :: "pydict \<Rightarrow> string \<Rightarrow> license_error option" where
  "version_check p expected_product_version =
     (if expected_product_version \<in> set (claim_allowed_versions p) then None
      else Some VersionNotAllowed)"

definition binding_check ::
  "('sk, 'pk) crypto \<Rightarrow> pydict \<Rightarrow> string option \<Rightarrow> string option \<Rightarrow> license_error option" where
  "binding_check lib p installation_id domain =
     (case claim_instance_fingerprint p of
        None \<Rightarrow> None
      | Some fp \<Rightarrow>
          if \<not> (truthy_str installation_id \<and> truthy_str domain) then Some BindingContextMissing
          else if fp \<noteq> generate_instance_fingerprint lib (the installation_id) (the domain)
            then Some InstanceMismatch
          else None)"

definition specified_binding_check ::
  "('sk, 'pk) crypto \<Rightarrow> pydict \<Rightarrow> string option \<Rightarrow> string option \<Rightarrow> license_error option" where
  "specified_binding_check lib p installation_id domain =
     (case claim_instance_fingerprint p of
        None \<Rightarrow> None
      | Some fp \<Rightarrow>
          if installation_id = None \<or> domain = None then Some BindingContextMissing
          else if fp \<noteq> generate_instance_fingerprint lib (the installation_id) (the domain)
            then Some InstanceMismatch
          else None)"

definition policy_check :: "pydict \<Rightarrow> license_error option" where
  "policy_check p =
     (if claim_license_kind p = Some ''demo'' \<and> claim_expires_at p = None
      then Some PolicyViolation else None)"

fun first_failure :: "license_error option list \<Rightarrow> license_error option" where
  "first_failure [] = None"
| "first_failure (None # cs) = first_failure cs"
| "first_failure (Some e # cs) = Some e"

subsection \<open>The pipeline of the specification\<close>

text \<open>
  The eight checks of section 4.2 of the specification, in its order, with the one reading
  \<open>now\<close> of the clock it speaks of.
\<close>

definition specified_pipeline ::
  "('sk, 'pk) crypto \<Rightarrow> 'pk license_verifier \<Rightarrow> rat \<Rightarrow> token \<Rightarrow> string \<Rightarrow> string
     \<Rightarrow> string option \<Rightarrow> string option \<Rightarrow> license_error option list" where
  "specified_pipeline lib v now tok expected_product_name expected_product_version
       installation_id domain =
     [structural_signature_check lib (public_key v) tok,
      mandatory_claims_check (token_payload tok),
      expiry_check (token_payload tok) now,
      issuer_check (token_payload tok) (expected_issuer v),
      product_check (token_payload tok) expected_product_name,
      version_check (token_payload tok) expected_product_version,
      specified_binding_check lib (token_payload tok) installation_id domain,
      policy_check (token_payload tok)]"

subsection \<open>The pipeline of the verifier\<close>

text \<open>
  The checks the verifier makes, in its order: the check of the registered claims comes
  after the mandatory claims, and the binding check counts an empty string as a value that
  was not supplied.
\<close>

definition checks_before_binding ::
  "('sk, 'pk) crypto \<Rightarrow> 'pk license_verifier \<Rightarrow> rat \<Rightarrow> rat \<Rightarrow> token \<Rightarrow> string \<Rightarrow> string
     \<Rightarrow> license_error option list" where
  "checks_before_binding lib v decode_now now tok expected_product_name expected_product_version =
     [structural_signature_check lib (public_key v) tok,
      mandatory_claims_check (token_payload tok),
      registered_claims_check (token_payload tok) decode_now,
      expiry_check (token_payload tok) now,
      issuer_check (token_payload tok) (expected_issuer v),
      product_check (token_payload tok) expected_product_name,
      version_check (token_payload tok) expected_product_version]"

definition verification_pipeline ::
  "('sk, 'pk) crypto \<Rightarrow> 'pk license_verifier \<Rightarrow> rat \<Rightarrow> rat \<Rightarrow> token \<Rightarrow> string \<Rightarrow> string
     \<Rightarrow> string option \<Rightarrow> string option \<Rightarrow> license_error option list" where
  "verification_pipeline lib v decode_now now tok expected_product_name expected_product_version
       installation_id domain =
     checks_before_binding lib v decode_now now tok expected_product_name expected_product_version
     @ [binding_check lib (token_payload tok) installation_id domain,
        policy_check (token_payload tok)]"

definition verify_by_pipeline ::
  "('sk, 'pk) crypto \<Rightarrow> 'pk license_verifier \<Rightarrow> rat \<Rightarrow> rat \<Rightarrow> token \<Rightarrow> string \<Rightarrow> string
     \<Rightarrow> string option \<Rightarrow> string option \<Rightarrow> license_error + pydict" where
  "verify_by_pipeline lib v decode_now now tok expected_product_name expected_product_version
       installation_id domain =
     (case first_failure (verification_pipeline lib v decode_now now tok expected_product_name
                            expected_product_version installation_id domain) of
        Some e \<Rightarrow> Inl e
      | None \<Rightarrow> Inr (token_payload tok))"


section \<open>An instance of the library interface\<close>

text \<open>
  For evaluating the definitions on concrete inputs: keys are strings, the signature of a
  message is the key followed by the message, and it verifies under the same key only; the
  digest of a byte string is the string itself; a string is a number when it is made of
  decimal digits.
\<close>

definition decimal_of_str :: "string \<Rightarrow> int option" where
  "decimal_of_str s =
     (if s \<noteq> [] \<and> list_all (\<lambda>c. 48 \<le> (of_char c :: nat) \<and> (of_char c :: nat) \<le> 57) s
      then Some (foldl (\<lambda>n c. 10 * n + (int (of_char c) - 48)) 0 s)
      else None)"

definition test_crypto :: "(string, string) crypto" where
  "test_crypto = \<lparr>ed25519_sign = (\<lambda>sk m. sk @ m),
                  ed25519_verify = (\<lambda>pk m s. s = pk @ m),
                  sha256_hexdigest = (\<lambda>b. b),
                  isoformat = dec_int,
                  int_of_str = decimal_of_str\<rparr>"

definition test_service :: "string license_service" where
  "test_service = \<lparr>private_key = ''k1'', key_id = ''aegis-2026-01'',
                   issuer = ''https://license.biz4a.com''\<rparr>"

definition test_issuer :: "string license_issuer" where
  "test_issuer = \<lparr>poc_private_key = ''k1'', poc_key_id = ''aegis-2026-01''\<rparr>"

definition test_verifier :: "string license_verifier" where
  "test_verifier = \<lparr>public_key = ''k1'', expected_issuer = ''https://license.biz4a.com''\<rparr>"

definition test_issue :: "string \<Rightarrow> int option \<Rightarrow> string option \<Rightarrow> license_error + token" where
  "test_issue license_type duration_days instance_fingerprint =
     issue_license test_crypto test_service 1500000 ''L1'' ''C1'' ''Acme'' ''payroll''
       [''17'', ''18''] license_type duration_days instance_fingerprint"

definition test_sign :: "pydict \<Rightarrow> token" where
  "test_sign p = jwt_encode test_crypto p ''k1'' ''aegis-2026-01''"

definition test_plain_payload :: pydict where
  "test_plain_payload =
     [(''jti'', JStr ''L4''), (''iss'', JStr ''https://license.biz4a.com''), (''iat'', JInt 1000),
      (''module'', JObj [(''technical_name'', JStr ''payroll''),
                        (''allowed_major_versions'', JList [JStr ''17'', JStr ''18''])]),
      (''license_type'', JStr ''perpetual'')]"

definition test_bound_payload :: pydict where
  "test_bound_payload =
     [(''jti'', JStr ''L2''), (''iss'', JStr ''https://license.biz4a.com''), (''iat'', JInt 1),
      (''module'', JObj [(''technical_name'', JStr ''payroll''),
                        (''allowed_major_versions'', JList [JStr ''17'', JStr ''18''])]),
      (''license_type'', JStr ''perpetual''),
      (''instance_fingerprint'', JStr ''sha256:db-1:a.example.com'')]"


definition test_expired_payload :: pydict where
  "test_expired_payload =
     [(''jti'', JStr ''L5''), (''iss'', JStr ''https://license.biz4a.com''), (''iat'', JInt 0),
      (''exp'', JInt 10),
      (''module'', JObj [(''technical_name'', JStr ''accounting''),
                        (''allowed_major_versions'', JList [JStr ''17''])]),
      (''license_type'', JStr ''demo'')]"

definition test_untyped_payload :: pydict where
  "test_untyped_payload =
     [(''jti'', JStr ''L6''), (''iss'', JStr ''https://license.biz4a.com''), (''iat'', JInt 1),
      (''exp'', JStr ''2030-01-01''),
      (''module'', JObj [(''technical_name'', JStr ''payroll''),
                        (''allowed_major_versions'', JList [JStr ''17'', JStr ''18''])]),
      (''license_type'', JStr ''perpetual'')]"

text \<open>The claims of the licenses that \<open>test_issue\<close> issues, before \<open>exp\<close> and the fingerprint.\<close>

definition test_issued_payload :: "string \<Rightarrow> pydict" where
  "test_issued_payload license_type =
     [(''jti'', JStr ''L1''), (''iss'', JStr ''https://license.biz4a.com''), (''iat'', JInt 1),
      (''customer'', JObj [(''id'', JStr ''C1''), (''name'', JStr ''Acme'')]),
      (''module'', JObj [(''technical_name'', JStr ''payroll''),
                        (''allowed_major_versions'', JList [JStr ''17'', JStr ''18''])]),
      (''license_type'', JStr license_type)]"

section \<open>Issuance\<close>

lemma valid_types_iff:
  "x \<in> set valid_types \<longleftrightarrow> x = ''perpetual'' \<or> x = ''subscription'' \<or> x = ''demo''"
  by (auto simp: valid_types_def)

lemma datetime_plus_days_cases:
  "datetime_plus_days t d = Inl OutOfRange \<or> datetime_plus_days t d = Inr (t + timedelta_days d)"
  by (simp add: datetime_plus_days_def)

lemma datetime_plus_days_Inr:
  assumes "- 999999999 \<le> d" "d \<le> 999999999"
    and "datetime_min \<le> t + timedelta_days d" "t + timedelta_days d \<le> datetime_max"
  shows "datetime_plus_days t d = Inr (t + timedelta_days d)"
  using assms by (simp add: datetime_plus_days_def)

lemma exact_seconds_plus_days:
  assumes "0 \<le> d" and "exact_seconds (int now + timedelta_days d)"
  shows "datetime_plus_days (int now) d = Inr (int now + timedelta_days d)"
proof (rule datetime_plus_days_Inr)
  from assms(1) show "- 999999999 \<le> d" by simp
  from assms(2) have b: "int now + d * 86400000000 < 8589934592000000"
    by (simp add: exact_seconds_def timedelta_days_def)
  then have "d * 86400000000 < 8589934592000000" by linarith
  then show "d \<le> 999999999" by linarith
  from assms(2) show "datetime_min \<le> int now + timedelta_days d"
    by (simp add: exact_seconds_def datetime_min_def)
  from assms(2) show "int now + timedelta_days d \<le> datetime_max"
    by (simp add: exact_seconds_def datetime_max_def)
qed

lemma issue_license_by_duration:
  assumes "license_type = ''subscription'' \<or> license_type = ''demo''"
  shows "(issue_license lib svc now license_id customer_id customer_name module_name allowed_versions
            license_type duration_days instance_fingerprint = Inl InvalidParameters
          \<longleftrightarrow> duration_days = None)
       \<and> (duration_days \<noteq> None \<longrightarrow>
            (if isl (datetime_plus_days (int now) (the duration_days))
             then issue_license lib svc now license_id customer_id customer_name module_name
                     allowed_versions license_type duration_days instance_fingerprint = Inl OutOfRange
             else \<not> isl (issue_license lib svc now license_id customer_id customer_name module_name
                     allowed_versions license_type duration_days instance_fingerprint)))"
proof (cases duration_days)
  case None
  with assms show ?thesis
    by (auto simp: issue_license_def valid_types_iff Let_def)
next
  case (Some d)
  from datetime_plus_days_cases [of "int now" d] Some assms show ?thesis
    by (auto simp: issue_license_def valid_types_iff Let_def)
qed

lemma datetime_plus_days_isl:
  "isl (datetime_plus_days t d) =
     (\<not> (- 999999999 \<le> d \<and> d \<le> 999999999
         \<and> datetime_min \<le> t + timedelta_days d \<and> t + timedelta_days d \<le> datetime_max))"
  by (auto simp: datetime_plus_days_def)

lemma poc_issue_license_eq:
  "poc_issue_license lib iss now license_id customer_id customer_name module_name allowed_versions
     license_type duration_days instance_fingerprint
   = issue_license lib \<lparr>private_key = poc_private_key iss, key_id = poc_key_id iss,
                         issuer = poc_issuer\<rparr>
       now license_id customer_id customer_name module_name allowed_versions
       license_type duration_days instance_fingerprint"
  unfolding poc_issue_license_def issue_license_def
  by (simp only: license_service.select_convs)

text \<open>
  C4, as the code has it. For a subscription or demo license, \<open>issue_license\<close> of the
  server and of the proof of concept fail with \<open>InvalidParameters\<close> exactly when the duration
  is absent, and then produce no token. A duration that is supplied is not looked at for its
  sign: the issuers return a token when the duration is at most 999999999 days either way
  and the issuing time plus the duration is a \<open>datetime\<close> (years 1 to 9999), and fail with
  \<open>OverflowError\<close> otherwise.
\<close>

theorem issue_license_duration_absent:
  assumes "license_type = ''subscription'' \<or> license_type = ''demo''"
  shows "(issue_license lib svc now license_id customer_id customer_name module_name allowed_versions
            license_type duration_days instance_fingerprint = Inl InvalidParameters
          \<longleftrightarrow> duration_days = None)
       \<and> (poc_issue_license lib iss now license_id customer_id customer_name module_name
            allowed_versions license_type duration_days instance_fingerprint = Inl InvalidParameters
          \<longleftrightarrow> duration_days = None)
       \<and> (\<forall>d. duration_days = Some d \<longrightarrow>
            (if - 999999999 \<le> d \<and> d \<le> 999999999
                \<and> datetime_min \<le> int now + timedelta_days d
                \<and> int now + timedelta_days d \<le> datetime_max
             then \<not> isl (issue_license lib svc now license_id customer_id customer_name module_name
                          allowed_versions license_type duration_days instance_fingerprint)
                \<and> \<not> isl (poc_issue_license lib iss now license_id customer_id customer_name
                          module_name allowed_versions license_type duration_days
                          instance_fingerprint)
             else issue_license lib svc now license_id customer_id customer_name module_name
                    allowed_versions license_type duration_days instance_fingerprint
                  = Inl OutOfRange
                \<and> poc_issue_license lib iss now license_id customer_id customer_name module_name
                    allowed_versions license_type duration_days instance_fingerprint
                  = Inl OutOfRange))"
proof -
  note a = issue_license_by_duration [OF assms, of lib svc now license_id customer_id customer_name
          "module_name" allowed_versions duration_days instance_fingerprint]
  note b = issue_license_by_duration [OF assms, of lib "\<lparr>private_key = poc_private_key iss,
          key_id = poc_key_id iss, issuer = poc_issuer\<rparr>" now license_id customer_id customer_name
          "module_name" allowed_versions duration_days instance_fingerprint,
          folded poc_issue_license_eq]
  show ?thesis
  proof (intro conjI allI impI)
    from a show "issue_license lib svc now license_id customer_id customer_name module_name
            allowed_versions license_type duration_days instance_fingerprint = Inl InvalidParameters
          \<longleftrightarrow> duration_days = None"
      by (rule conjunct1)
    from b show "poc_issue_license lib iss now license_id customer_id customer_name module_name
            allowed_versions license_type duration_days instance_fingerprint = Inl InvalidParameters
          \<longleftrightarrow> duration_days = None"
      by (rule conjunct1)
  next
    fix d
    assume d: "duration_days = Some d"
    from a [THEN conjunct2] b [THEN conjunct2] d
    show "if - 999999999 \<le> d \<and> d \<le> 999999999
                \<and> datetime_min \<le> int now + timedelta_days d
                \<and> int now + timedelta_days d \<le> datetime_max
             then \<not> isl (issue_license lib svc now license_id customer_id customer_name module_name
                          allowed_versions license_type duration_days instance_fingerprint)
                \<and> \<not> isl (poc_issue_license lib iss now license_id customer_id customer_name
                          module_name allowed_versions license_type duration_days
                          instance_fingerprint)
             else issue_license lib svc now license_id customer_id customer_name module_name
                    allowed_versions license_type duration_days instance_fingerprint
                  = Inl OutOfRange
                \<and> poc_issue_license lib iss now license_id customer_id customer_name module_name
                    allowed_versions license_type duration_days instance_fingerprint
                  = Inl OutOfRange"
      by (auto simp: datetime_plus_days_isl split: if_splits)
  qed
qed

theorem issue_license_duration_absent_witness:
  "(''demo'' = ''subscription'' \<or> ''demo'' = ''demo'')
   \<and> issue_license test_crypto test_service 1500000 ''L1'' ''C1'' ''Acme'' ''payroll'' [''17'']
        ''demo'' None None = Inl InvalidParameters
   \<and> \<not> isl (issue_license test_crypto test_service 1500000 ''L1'' ''C1'' ''Acme'' ''payroll'' [''17'']
        ''demo'' (Some 30) None)
   \<and> poc_issue_license test_crypto test_issuer 1500000 ''L1'' ''C1'' ''Acme'' ''payroll'' [''17'']
        ''demo'' (Some 4000000) None = Inl OutOfRange"
proof -
  have k: "''demo'' = ''subscription'' \<or> ''demo'' = ''demo''" by simp
  have a: "- 999999999 \<le> (30::int) \<and> (30::int) \<le> 999999999
                \<and> datetime_min \<le> int 1500000 + timedelta_days 30
                \<and> int 1500000 + timedelta_days 30 \<le> datetime_max"
    and b: "\<not> (- 999999999 \<le> (4000000::int) \<and> (4000000::int) \<le> 999999999
                \<and> datetime_min \<le> int 1500000 + timedelta_days 4000000
                \<and> int 1500000 + timedelta_days 4000000 \<le> datetime_max)"
    by (simp_all add: timedelta_days_def datetime_min_def datetime_max_def)
  from issue_license_duration_absent [OF k, of test_crypto test_service 1500000 "''L1''"
          "''C1''" "''Acme''" "''payroll''" "[''17'']" None None test_issuer]
  have c1: "issue_license test_crypto test_service 1500000 ''L1'' ''C1'' ''Acme'' ''payroll'' [''17'']
        ''demo'' None None = Inl InvalidParameters"
    by simp
  from issue_license_duration_absent [OF k, of test_crypto test_service 1500000 "''L1''"
          "''C1''" "''Acme''" "''payroll''" "[''17'']" "Some 30" None test_issuer,
          THEN conjunct2, THEN conjunct2, rule_format, of 30] a
  have c2: "\<not> isl (issue_license test_crypto test_service 1500000 ''L1'' ''C1'' ''Acme'' ''payroll''
        [''17''] ''demo'' (Some 30) None)"
    by simp
  from issue_license_duration_absent [OF k, of test_crypto test_service 1500000 "''L1''"
          "''C1''" "''Acme''" "''payroll''" "[''17'']" "Some 4000000" None test_issuer,
          THEN conjunct2, THEN conjunct2, rule_format, of 4000000] b
  have c3: "poc_issue_license test_crypto test_issuer 1500000 ''L1'' ''C1'' ''Acme'' ''payroll''
        [''17''] ''demo'' (Some 4000000) None = Inl OutOfRange"
    by simp
  from k c1 c2 c3 show ?thesis by blast
qed

text \<open>
  C4 as stated fails: a demo license with a duration of zero days, or of minus three days,
  is issued, not refused, by the server and by the proof of concept.
\<close>

theorem issue_license_zero_duration_counterexample:
  "issue_license test_crypto test_service 1500000 ''L1'' ''C1'' ''Acme'' ''payroll'' [''17'']
     ''demo'' (Some 0) None \<noteq> Inl InvalidParameters
   \<and> \<not> isl (issue_license test_crypto test_service 1500000 ''L1'' ''C1'' ''Acme'' ''payroll'' [''17'']
        ''demo'' (Some 0) None)
   \<and> \<not> isl (poc_issue_license test_crypto test_issuer 1500000 ''L1'' ''C1'' ''Acme'' ''payroll'' [''17'']
        ''demo'' (Some 0) None)
   \<and> \<not> isl (issue_license test_crypto test_service 1500000 ''L1'' ''C1'' ''Acme'' ''payroll'' [''17'']
        ''demo'' (Some (- 3)) None)
   \<and> \<not> isl (poc_issue_license test_crypto test_issuer 1500000 ''L1'' ''C1'' ''Acme'' ''payroll'' [''17'']
        ''demo'' (Some (- 3)) None)"
  by (simp add: issue_license_def poc_issue_license_def valid_types_def Let_def
        datetime_plus_days_def timedelta_days_def datetime_min_def datetime_max_def)

section \<open>Verification\<close>

subsection \<open>Each step of the verifier against the check of the pipeline\<close>

lemma typed_exp:
  assumes "claims_typed p"
  shows "map_of p ''exp'' = None \<or> (\<exists>e. map_of p ''exp'' = Some (JInt e))"
proof -
  from assms have "case map_of p ''exp'' of None \<Rightarrow> True | Some (JInt e) \<Rightarrow> True | Some _ \<Rightarrow> False"
    by (simp add: claims_typed_def)
  then show ?thesis by (simp split: option.splits json.splits)
qed

lemma typed_iat:
  assumes "claims_typed p"
  shows "map_of p ''iat'' = None \<or> (\<exists>t. map_of p ''iat'' = Some (JInt t))"
proof -
  from assms have "case map_of p ''iat'' of None \<Rightarrow> True | Some (JInt e) \<Rightarrow> True | Some _ \<Rightarrow> False"
    by (simp add: claims_typed_def)
  then show ?thesis by (simp split: option.splits json.splits)
qed

lemma typed_nbf:
  assumes "claims_typed p"
  shows "map_of p ''nbf'' = None \<or> (\<exists>t. map_of p ''nbf'' = Some (JInt t))"
proof -
  from assms have "case map_of p ''nbf'' of None \<Rightarrow> True | Some (JInt e) \<Rightarrow> True | Some _ \<Rightarrow> False"
    by (simp add: claims_typed_def)
  then show ?thesis by (simp split: option.splits json.splits)
qed

lemma typed_jti:
  assumes "claims_typed p"
  shows "map_of p ''jti'' = None \<or> (\<exists>s. map_of p ''jti'' = Some (JStr s))"
proof -
  from assms have "case map_of p ''jti'' of None \<Rightarrow> True | Some (JStr s) \<Rightarrow> True | Some _ \<Rightarrow> False"
    by (simp add: claims_typed_def)
  then show ?thesis by (simp split: option.splits json.splits)
qed

lemma typed_sub:
  assumes "claims_typed p"
  shows "map_of p ''sub'' = None \<or> (\<exists>s. map_of p ''sub'' = Some (JStr s))"
proof -
  from assms have "case map_of p ''sub'' of None \<Rightarrow> True | Some (JStr s) \<Rightarrow> True | Some _ \<Rightarrow> False"
    by (simp add: claims_typed_def)
  then show ?thesis by (simp split: option.splits json.splits)
qed

lemma typed_fingerprint:
  assumes "claims_typed p"
  shows "map_of p ''instance_fingerprint'' = None
       \<or> (\<exists>s. map_of p ''instance_fingerprint'' = Some (JStr s))"
proof -
  from assms have "case map_of p ''instance_fingerprint'' of
                     None \<Rightarrow> True | Some (JStr s) \<Rightarrow> True | Some _ \<Rightarrow> False"
    by (simp add: claims_typed_def)
  then show ?thesis by (simp split: option.splits json.splits)
qed

lemma typed_module:
  assumes "claims_typed p"
  shows "map_of p ''module'' = None
       \<or> (\<exists>m. map_of p ''module'' = Some (JObj m)
              \<and> (map_of m ''allowed_major_versions'' = None
                 \<or> (\<exists>xs. map_of m ''allowed_major_versions'' = Some (JList xs))))"
proof -
  from assms have "case map_of p ''module'' of
          None \<Rightarrow> True
        | Some (JObj m) \<Rightarrow>
            (case map_of m ''allowed_major_versions'' of
               None \<Rightarrow> True | Some (JList xs) \<Rightarrow> True | Some _ \<Rightarrow> False)
        | Some _ \<Rightarrow> False"
    by (simp add: claims_typed_def)
  then show ?thesis
    by (cases "map_of p ''module''") (auto split: json.splits option.splits)
qed

text \<open>The validation of the library on claims that have their types.\<close>

lemma validate_claims_typed:
  assumes "claims_typed p"
  shows "validate_claims lib p t =
     (if map_of p ''jti'' = None \<or> map_of p ''iss'' = None \<or> map_of p ''iat'' = None
        then Inl MissingRequiredClaimError
      else if t < of_int (the (claim_issued_at p)) then Inl ImmatureSignatureError
      else if (\<exists>n. map_of p ''nbf'' = Some (JInt n) \<and> t < of_int n) then Inl ImmatureSignatureError
      else if truthy_get (map_of p ''aud'') then Inl InvalidAudienceError
      else Inr p)"
proof (cases "map_of p ''jti'' = None \<or> map_of p ''iss'' = None \<or> map_of p ''iat'' = None")
  case True
  then show ?thesis by (simp add: validate_claims_def)
next
  case False
  with typed_iat [OF assms] typed_jti [OF assms]
  obtain i s where i: "map_of p ''iat'' = Some (JInt i)" and s: "map_of p ''jti'' = Some (JStr s)"
    by auto
  from False have iss: "map_of p ''iss'' \<noteq> None" by simp
  from typed_sub [OF assms]
  have sub: "(case map_of p ''sub'' of None \<Rightarrow> False | Some (JStr s) \<Rightarrow> False | Some _ \<Rightarrow> True) = False"
    by auto
  from typed_nbf [OF assms] show ?thesis
  proof
    assume n: "map_of p ''nbf'' = None"
    show ?thesis
      unfolding validate_claims_def
      by (simp add: i s iss n sub claim_issued_at_def)
  next
    assume "\<exists>t. map_of p ''nbf'' = Some (JInt t)"
    then obtain n where n: "map_of p ''nbf'' = Some (JInt n)" ..
    show ?thesis
      unfolding validate_claims_def
      by (simp add: i s iss n sub claim_issued_at_def)
  qed
qed

lemma registered_claims_check_typed:
  assumes "claims_typed p" and "map_of p ''iat'' \<noteq> None"
  shows "(registered_claims_check p t = None) =
     (\<not> t < of_int (the (claim_issued_at p))
      \<and> \<not> (\<exists>n. map_of p ''nbf'' = Some (JInt n) \<and> t < of_int n)
      \<and> \<not> truthy_get (map_of p ''aud''))"
proof -
  from typed_iat [OF assms(1)] assms(2) obtain i where i: "map_of p ''iat'' = Some (JInt i)"
    by auto
  from typed_nbf [OF assms(1)] show ?thesis
  proof
    assume n: "map_of p ''nbf'' = None"
    show ?thesis
      by (auto simp: registered_claims_check_def claim_issued_at_def i n)
  next
    assume "\<exists>t. map_of p ''nbf'' = Some (JInt t)"
    then obtain n where n: "map_of p ''nbf'' = Some (JInt n)" ..
    show ?thesis
      by (auto simp: registered_claims_check_def claim_issued_at_def i n)
  qed
qed

lemma mandatory_claims_check_eq:
  "(mandatory_claims_check p = None) =
     (\<not> (map_of p ''jti'' = None \<or> map_of p ''iss'' = None \<or> map_of p ''iat'' = None))"
  by (simp add: mandatory_claims_check_def)

lemma check_cases:
  "mandatory_claims_check p = None \<or> mandatory_claims_check p = Some Malformed"
  "registered_claims_check p t = None \<or> registered_claims_check p t = Some Malformed"
  by (simp_all add: mandatory_claims_check_def registered_claims_check_def)

lemma validate_claims_Inl:
  assumes "claims_typed p" and "validate_claims lib p t = Inl e"
  shows "except_clauses e = Malformed"
    and "first_failure (mandatory_claims_check p # registered_claims_check p t # cs) = Some Malformed"
proof -
  from assms show "except_clauses e = Malformed"
    by (auto simp: validate_claims_typed split: if_splits)
  show "first_failure (mandatory_claims_check p # registered_claims_check p t # cs) = Some Malformed"
  proof (cases "mandatory_claims_check p = None")
    case True
    then have iat: "map_of p ''iat'' \<noteq> None" by (simp add: mandatory_claims_check_eq)
    from assms True have "registered_claims_check p t \<noteq> None"
      unfolding registered_claims_check_typed [OF assms(1) iat]
      by (auto simp: validate_claims_typed mandatory_claims_check_eq split: if_splits)
    with check_cases(2) [of p t] True show ?thesis by auto
  next
    case False
    with check_cases(1) [of p] show ?thesis by auto
  qed
qed

lemma validate_claims_Inr:
  assumes "validate_claims lib p t = Inr q"
  shows "q = p" and "mandatory_claims_check p = None"
    and "claims_typed p \<Longrightarrow> registered_claims_check p t = None"
proof -
  from assms have m: "\<not> (map_of p ''jti'' = None \<or> map_of p ''iss'' = None \<or> map_of p ''iat'' = None)"
    by (auto simp: validate_claims_def split: if_splits)
  then show "mandatory_claims_check p = None" by (simp add: mandatory_claims_check_eq)
  from assms show "q = p"
    by (auto simp: validate_claims_def split: if_splits int_result.splits)
  assume typed: "claims_typed p"
  from m have iat: "map_of p ''iat'' \<noteq> None" by simp
  from assms show "registered_claims_check p t = None"
    unfolding registered_claims_check_typed [OF typed iat] validate_claims_typed [OF typed]
    by (auto split: if_splits)
qed

lemma jwt_decode_Inl:
  assumes "claims_typed (token_payload tok)" and "jwt_decode lib key t tok = Inl e"
  shows "first_failure (structural_signature_check lib key tok
                    # mandatory_claims_check (token_payload tok)
                    # registered_claims_check (token_payload tok) t # cs) = Some (except_clauses e)"
proof (cases tok)
  case (Undecodable s)
  with assms(2) show ?thesis
    by (auto simp: jwt_decode_def structural_signature_check_def)
next
  case (NonJsonPayload hdr raw sg)
  with assms(2) show ?thesis
    by (auto simp: jwt_decode_def structural_signature_check_def split: if_splits)
next
  case (Jwt j)
  show ?thesis
  proof (cases "structural_signature_check lib key tok = None")
    case True
    with Jwt assms(2) have v: "validate_claims lib (jwt_payload j) t = Inl e"
      by (auto simp: jwt_decode_def structural_signature_check_def split: if_splits)
    from Jwt have tp: "token_payload tok = jwt_payload j" by (simp add: token_payload_def)
    from assms(1) have typed: "claims_typed (jwt_payload j)" by (simp add: tp)
    from validate_claims_Inl [OF typed v] True show ?thesis by (simp add: tp)
  next
    case False
    with Jwt assms(2) show ?thesis
      by (auto simp: jwt_decode_def structural_signature_check_def split: if_splits)
  qed
qed

lemma jwt_decode_Inr:
  assumes "jwt_decode lib key t tok = Inr p"
  shows "token_payload tok = p" and "structural_signature_check lib key tok = None"
    and "mandatory_claims_check p = None"
    and "claims_typed p \<Longrightarrow> registered_claims_check p t = None"
proof -
  from assms obtain j where j: "tok = Jwt j"
    by (cases tok) (auto simp: jwt_decode_def split: if_splits)
  with assms have v: "validate_claims lib (jwt_payload j) t = Inr p"
    and s: "structural_signature_check lib key tok = None"
    by (auto simp: jwt_decode_def structural_signature_check_def split: if_splits)
  from validate_claims_Inr(1) [OF v] have p: "p = jwt_payload j" .
  with j show "token_payload tok = p" by (simp add: token_payload_def)
  from s show "structural_signature_check lib key tok = None" .
  from validate_claims_Inr(2) [OF v] p show "mandatory_claims_check p = None" by simp
  assume "claims_typed p"
  with validate_claims_Inr(3) [OF v] p show "registered_claims_check p t = None" by simp
qed

lemma expiry_stage:
  "claims_typed p \<Longrightarrow>
   (case map_of p ''exp'' of None \<Rightarrow> Inr False | Some x \<Rightarrow> py_ge now x)
     = Inr (expiry_check p now \<noteq> None)"
  using typed_exp [of p] by (auto simp: expiry_check_def claim_expires_at_def)

lemma expiry_check_cases: "expiry_check p now = None \<or> expiry_check p now = Some Expired"
  by (auto simp: expiry_check_def split: option.splits)

lemma issuer_stage:
  "(map_of p ''iss'' \<noteq> Some (JStr x)) = (issuer_check p x \<noteq> None)"
  by (auto simp: issuer_check_def claim_issuer_def split: option.splits json.splits)

lemma issuer_check_cases: "issuer_check p x = None \<or> issuer_check p x = Some UntrustedIssuer"
  by (auto simp: issuer_check_def)

lemma product_stage:
  "claims_typed p \<Longrightarrow>
   \<exists>tn. py_get (py_get_default p ''module'' (JObj [])) ''technical_name'' = Inr tn
       \<and> ((tn \<noteq> Some (JStr m)) = (product_check p m \<noteq> None))"
  using typed_module [of p]
  by (auto simp: py_get_default_def product_check_def claim_product_name_def
        split: option.splits json.splits)

lemma product_check_cases: "product_check p x = None \<or> product_check p x = Some ProductMismatch"
  by (auto simp: product_check_def)

lemma in_versions:
  "(s \<in> set (concat (map (\<lambda>x. case x of JStr s \<Rightarrow> [s] | _ \<Rightarrow> []) xs))) = (JStr s \<in> set xs)"
  by (induction xs) (auto split: json.splits)

lemma version_stage:
  "claims_typed p \<Longrightarrow>
   \<exists>a b. py_get (py_get_default p ''module'' (JObj [])) ''allowed_major_versions'' = Inr a
       \<and> py_in ver (case a of None \<Rightarrow> JList [] | Some xs \<Rightarrow> xs) = Inr b
       \<and> (b = (version_check p ver = None))"
  using typed_module [of p]
  by (auto simp: py_get_default_def version_check_def claim_allowed_versions_def in_versions)

lemma version_check_cases: "version_check p x = None \<or> version_check p x = Some VersionNotAllowed"
  by (auto simp: version_check_def)

lemma binding_stage:
  "claims_typed p \<Longrightarrow>
   binding_check lib p u d =
     (if map_of p ''instance_fingerprint'' \<noteq> None \<and> (\<not> truthy_str u \<or> \<not> truthy_str d)
      then Some BindingContextMissing
      else if map_of p ''instance_fingerprint'' \<noteq> None
              \<and> map_of p ''instance_fingerprint'' \<noteq>
                   Some (JStr (generate_instance_fingerprint lib (the u) (the d)))
      then Some InstanceMismatch else None)"
  using typed_fingerprint [of p]
  by (auto simp: binding_check_def claim_instance_fingerprint_def split: if_splits)

lemma policy_stage:
  assumes "claims_typed p" "expiry_check p now = None" "0 \<le> now"
  shows "(map_of p ''license_type'' = Some (JStr ''demo'') \<and> \<not> truthy_get (map_of p ''exp''))
         = (policy_check p \<noteq> None)"
proof -
  have "\<not> truthy_get (map_of p ''exp'') \<longleftrightarrow> claim_expires_at p = None"
  proof (cases "map_of p ''exp''")
    case None
    then show ?thesis by (simp add: claim_expires_at_def)
  next
    case (Some x)
    with typed_exp [OF assms(1)] obtain e where x: "x = JInt e"
      by auto
    from assms(2) Some x have "\<not> of_int e \<le> now"
      by (simp add: expiry_check_def claim_expires_at_def split: if_splits)
    with assms(3) have "e \<noteq> 0" by auto
    with Some x show ?thesis by (simp add: claim_expires_at_def)
  qed
  moreover have "map_of p ''license_type'' = Some (JStr ''demo'') \<longleftrightarrow> claim_license_kind p = Some ''demo''"
    by (auto simp: claim_license_kind_def split: option.splits json.splits)
  ultimately show ?thesis by (simp add: policy_check_def)
qed

lemma policy_check_cases: "policy_check p = None \<or> policy_check p = Some PolicyViolation"
  by (auto simp: policy_check_def)

subsection \<open>The verifier, check by check\<close>

lemma verify_license_decode_error:
  assumes "jwt_decode lib (public_key v) decode_now tok = Inl e"
  shows "verify_license lib v decode_now now tok module_name odoo_version instance_db_uuid
           instance_domain = Inl (except_clauses e)"
  using assms by (simp add: verify_license_def)

lemma verify_license_checks:
  assumes dec: "jwt_decode lib (public_key v) decode_now tok = Inr p" and typed: "claims_typed p"
  shows "verify_license lib v decode_now now tok module_name odoo_version instance_db_uuid
           instance_domain =
    (if expiry_check p now \<noteq> None then Inl Expired
     else if issuer_check p (expected_issuer v) \<noteq> None then Inl UntrustedIssuer
     else if product_check p module_name \<noteq> None then Inl ProductMismatch
     else if version_check p odoo_version \<noteq> None then Inl VersionNotAllowed
     else case binding_check lib p instance_db_uuid instance_domain of
            Some e \<Rightarrow> Inl e
          | None \<Rightarrow> if map_of p ''license_type'' = Some (JStr ''demo'')
                       \<and> \<not> truthy_get (map_of p ''exp'')
                    then Inl PolicyViolation else Inr p)"
proof -
  from product_stage [of p "module_name", OF typed] obtain tn
    where tn: "py_get (py_get_default p ''module'' (JObj [])) ''technical_name'' = Inr tn"
      and tn_iff: "(tn \<noteq> Some (JStr module_name)) = (product_check p module_name \<noteq> None)"
    by blast
  from version_stage [of p odoo_version, OF typed] obtain a b
    where a: "py_get (py_get_default p ''module'' (JObj [])) ''allowed_major_versions'' = Inr a"
      and b: "py_in odoo_version (case a of None \<Rightarrow> JList [] | Some xs \<Rightarrow> xs) = Inr b"
      and b_iff: "b = (version_check p odoo_version = None)"
    by blast
  show ?thesis
    unfolding verify_license_def dec
    by (simp add: expiry_stage [OF typed] issuer_stage tn tn_iff a b b_iff
          binding_stage [OF typed] Let_def)
qed

lemma verify_license_refines_pipeline:
  assumes "claims_typed (token_payload tok)" and nonneg: "0 \<le> now"
  shows "verify_license lib v decode_now now tok module_name odoo_version instance_db_uuid
           instance_domain
       = verify_by_pipeline lib v decode_now now tok module_name odoo_version instance_db_uuid
           instance_domain"
proof (cases "jwt_decode lib (public_key v) decode_now tok")
  case (Inl e)
  from jwt_decode_Inl [OF assms(1) Inl] show ?thesis
    by (simp add: Inl verify_license_def verify_by_pipeline_def verification_pipeline_def
          checks_before_binding_def)
next
  case (Inr p)
  from jwt_decode_Inr(1,2,3) [OF Inr]
  have tp: "token_payload tok = p"
    and sig: "structural_signature_check lib (public_key v) tok = None"
    and mand: "mandatory_claims_check p = None"
    by simp_all
  from assms tp have typed: "claims_typed p" by simp
  from jwt_decode_Inr(4) [OF Inr typed] have reg: "registered_claims_check p decode_now = None" .
  note lhs = verify_license_checks [OF Inr typed]
  have rhs: "verify_by_pipeline lib v decode_now now tok module_name odoo_version instance_db_uuid
               instance_domain =
    (case first_failure [expiry_check p now, issuer_check p (expected_issuer v),
            product_check p module_name, version_check p odoo_version,
            binding_check lib p instance_db_uuid instance_domain, policy_check p] of
       Some e \<Rightarrow> Inl e | None \<Rightarrow> Inr p)"
    unfolding verify_by_pipeline_def verification_pipeline_def checks_before_binding_def tp
    by (simp add: sig mand reg)
  consider (expired) "expiry_check p now = Some Expired"
    | (issuer) "expiry_check p now = None" "issuer_check p (expected_issuer v) = Some UntrustedIssuer"
    | (product) "expiry_check p now = None" "issuer_check p (expected_issuer v) = None"
        "product_check p module_name = Some ProductMismatch"
    | (version) "expiry_check p now = None" "issuer_check p (expected_issuer v) = None"
        "product_check p module_name = None" "version_check p odoo_version = Some VersionNotAllowed"
    | (policy) "expiry_check p now = None" "issuer_check p (expected_issuer v) = None"
        "product_check p module_name = None" "version_check p odoo_version = None"
        "policy_check p = Some PolicyViolation"
    | (pass) "expiry_check p now = None" "issuer_check p (expected_issuer v) = None"
        "product_check p module_name = None" "version_check p odoo_version = None"
        "policy_check p = None"
    using expiry_check_cases [of p now] issuer_check_cases [of p "expected_issuer v"]
      product_check_cases [of p "module_name"] version_check_cases [of p odoo_version]
      policy_check_cases [of p]
    by metis
  then show ?thesis
  proof cases
    case expired
    then show ?thesis by (simp add: lhs rhs)
  next
    case issuer
    then show ?thesis by (simp add: lhs rhs)
  next
    case product
    then show ?thesis by (simp add: lhs rhs)
  next
    case version
    then show ?thesis by (simp add: lhs rhs)
  next
    case policy
    with policy_stage [OF typed policy(1) nonneg] show ?thesis
      by (cases "binding_check lib p instance_db_uuid instance_domain") (simp_all add: lhs rhs)
  next
    case pass
    with policy_stage [OF typed pass(1) nonneg] show ?thesis
      by (cases "binding_check lib p instance_db_uuid instance_domain") (simp_all add: lhs rhs)
  qed
qed

lemma token_payload_encode: "token_payload (jwt_encode lib p sk kid) = p"
  by (simp add: token_payload_def jwt_encode_def Let_def)

lemma structural_signature_check_encode:
  assumes "\<And>msg. ed25519_verify lib pk msg (ed25519_sign lib sk msg)"
  shows "structural_signature_check lib pk (jwt_encode lib p sk kid) = None"
  using assms
  by (simp add: structural_signature_check_def jwt_encode_def encode_header_def Let_def)

lemma jwt_decode_encode:
  assumes "\<And>msg. ed25519_verify lib pk msg (ed25519_sign lib sk msg)"
  shows "jwt_decode lib pk t (jwt_encode lib p sk kid) = validate_claims lib p t"
  using assms by (simp add: jwt_decode_def jwt_encode_def encode_header_def Let_def)

lemma test_crypto_keys: "ed25519_verify test_crypto k msg (ed25519_sign test_crypto k msg)"
  by (simp add: test_crypto_def)

lemma test_sign_payload: "token_payload (test_sign p) = p"
  by (simp add: test_sign_def token_payload_encode)

lemma test_crypto_simps:
  "sha256_hexdigest test_crypto b = b"
  "ed25519_sign test_crypto k msg = k @ msg"
  "int_of_str test_crypto = decimal_of_str"
  by (simp_all add: test_crypto_def)

lemma test_verifier_simps:
  "public_key test_verifier = ''k1''"
  "expected_issuer test_verifier = ''https://license.biz4a.com''"
  by (simp_all add: test_verifier_def)

lemma test_sign_decode:
  "jwt_decode test_crypto ''k1'' t (test_sign p) = validate_claims test_crypto p t"
  unfolding test_sign_def
  by (rule jwt_decode_encode) (simp add: test_crypto_def)

lemma test_sign_structural:
  "structural_signature_check test_crypto ''k1'' (test_sign p) = None"
  unfolding test_sign_def
  by (rule structural_signature_check_encode) (simp add: test_crypto_def)

text \<open>
  C2, as the code has it. For every token whose claims, where present, have the JSON types
  of the data model, every verification context and every reading of the clock that is not
  before the epoch, \<open>verify_license\<close> returns what the pipeline of the verifier returns:
  the error of the first check that fails, in the order structure and signature, mandatory
  claims, registered claims (\<open>Malformed\<close> for a token issued after the verifier's clock,
  used before its \<open>nbf\<close>, or naming an audience), expiry, issuer, product, version, binding
  (an empty string in the context counting as a value that was not supplied), demo policy;
  and the payload when no check fails.
\<close>

theorem verify_license_pipeline_order:
  assumes "claims_typed (token_payload tok)" and "0 \<le> now"
  shows "verify_license lib v decode_now now tok module_name odoo_version instance_db_uuid
           instance_domain
       = verify_by_pipeline lib v decode_now now tok module_name odoo_version instance_db_uuid
           instance_domain"
  using assms by (rule verify_license_refines_pipeline)

theorem verify_license_pipeline_order_witness:
  "claims_typed (token_payload (test_sign test_expired_payload))
   \<and> (0::rat) \<le> 20
   \<and> verify_license test_crypto test_verifier 20 20 (test_sign test_expired_payload)
        ''payroll'' ''16'' None None
     = Inl Expired"
proof -
  have typed: "claims_typed (token_payload (test_sign test_expired_payload))"
    by (simp add: claims_typed_def test_sign_payload test_expired_payload_def)
  have "verify_by_pipeline test_crypto test_verifier 20 20 (test_sign test_expired_payload)
          ''payroll'' ''16'' None None
        = Inl Expired"
    by (simp add: verify_by_pipeline_def verification_pipeline_def checks_before_binding_def
          test_verifier_simps test_sign_structural test_sign_payload mandatory_claims_check_def
          registered_claims_check_def claim_issued_at_def
          expiry_check_def claim_expires_at_def test_expired_payload_def)
  with verify_license_pipeline_order [OF typed, of 20 test_crypto test_verifier 20
         "''payroll''" "''16''" None None] typed
  show ?thesis by simp
qed

text \<open>
  C2 as stated fails, in three ways. A validly signed token whose \<open>iat\<close> is after the
  reading of the verifier's clock is refused as \<open>Malformed\<close>, while none of the eight
  checks of the specification fails on it. A bound token verified with an empty string for
  the installation id is refused with \<open>BindingContextMissing\<close>, while the first check of the
  specification that fails, both values being supplied, is the comparison of the
  fingerprints. A token whose \<open>exp\<close> claim is a string makes the verifier raise a
  \<open>TypeError\<close>, which is none of the errors of the pipeline.
\<close>

theorem verify_license_outside_pipeline_counterexample:
  "verify_license test_crypto test_verifier 999 999 (test_sign test_plain_payload)
        ''payroll'' ''18'' None None = Inl Malformed
   \<and> first_failure (specified_pipeline test_crypto test_verifier 999 (test_sign test_plain_payload)
        ''payroll'' ''18'' None None) = None
   \<and> verify_license test_crypto test_verifier 2 2 (test_sign test_bound_payload)
        ''payroll'' ''18'' (Some []) (Some ''a.example.com'') = Inl BindingContextMissing
   \<and> first_failure (specified_pipeline test_crypto test_verifier 2 (test_sign test_bound_payload)
        ''payroll'' ''18'' (Some []) (Some ''a.example.com'')) = Some InstanceMismatch
   \<and> verify_license test_crypto test_verifier 2 2 (test_sign test_untyped_payload)
        ''payroll'' ''18'' None None = Inl Uncaught
   \<and> first_failure (specified_pipeline test_crypto test_verifier 2 (test_sign test_untyped_payload)
        ''payroll'' ''18'' None None) = None"
proof -
  have a1: "verify_license test_crypto test_verifier 999 999 (test_sign test_plain_payload)
        ''payroll'' ''18'' None None = Inl Malformed"
    by (simp add: verify_license_def test_verifier_simps test_sign_decode validate_claims_def
          test_plain_payload_def)
  have a2: "first_failure (specified_pipeline test_crypto test_verifier 999
        (test_sign test_plain_payload) ''payroll'' ''18'' None None) = None"
    by (simp add: specified_pipeline_def test_sign_structural test_sign_payload
          mandatory_claims_check_def expiry_check_def claim_expires_at_def issuer_check_def
          claim_issuer_def product_check_def claim_product_name_def version_check_def
          claim_allowed_versions_def specified_binding_check_def claim_instance_fingerprint_def
          policy_check_def claim_license_kind_def test_verifier_simps test_plain_payload_def)
  have b1: "verify_license test_crypto test_verifier 2 2 (test_sign test_bound_payload)
        ''payroll'' ''18'' (Some []) (Some ''a.example.com'') = Inl BindingContextMissing"
    by (simp add: verify_license_def test_sign_decode validate_claims_def test_bound_payload_def
          py_get_default_def test_verifier_simps)
  have b2: "first_failure (specified_pipeline test_crypto test_verifier 2
        (test_sign test_bound_payload) ''payroll'' ''18'' (Some []) (Some ''a.example.com''))
        = Some InstanceMismatch"
    by (simp add: specified_pipeline_def test_sign_structural test_sign_payload
          mandatory_claims_check_def expiry_check_def claim_expires_at_def issuer_check_def
          claim_issuer_def product_check_def claim_product_name_def version_check_def
          claim_allowed_versions_def specified_binding_check_def claim_instance_fingerprint_def
          generate_instance_fingerprint_def test_crypto_simps
          policy_check_def claim_license_kind_def test_verifier_simps test_bound_payload_def)
  have c1: "verify_license test_crypto test_verifier 2 2 (test_sign test_untyped_payload)
        ''payroll'' ''18'' None None = Inl Uncaught"
    by (simp add: verify_license_def test_verifier_simps test_sign_decode validate_claims_def
          test_untyped_payload_def)
  have c2: "first_failure (specified_pipeline test_crypto test_verifier 2
        (test_sign test_untyped_payload) ''payroll'' ''18'' None None) = None"
    by (simp add: specified_pipeline_def test_sign_structural test_sign_payload
          mandatory_claims_check_def expiry_check_def claim_expires_at_def issuer_check_def
          claim_issuer_def product_check_def claim_product_name_def version_check_def
          claim_allowed_versions_def specified_binding_check_def claim_instance_fingerprint_def
          policy_check_def claim_license_kind_def test_verifier_simps test_untyped_payload_def)
  from a1 a2 b1 b2 c1 c2 show ?thesis by blast
qed

section \<open>Issued tokens\<close>

lemma issue_license_Inr:
  assumes "issue_license lib svc now license_id customer_id customer_name module_name
             allowed_versions license_type duration_days instance_fingerprint = Inr tok"
  shows "\<exists>p. tok = jwt_encode lib p (private_key svc) (key_id svc)
     \<and> license_type \<in> set valid_types
     \<and> map_of p ''jti'' = Some (JStr license_id)
     \<and> map_of p ''iss'' = Some (JStr (issuer svc))
     \<and> map_of p ''iat'' = Some (JInt (py_int (timestamp (int now))))
     \<and> map_of p ''customer'' = Some (JObj [(''id'', JStr customer_id), (''name'', JStr customer_name)])
     \<and> map_of p ''module'' = Some (JObj [(''technical_name'', JStr module_name),
                                   (''allowed_major_versions'', JList (map JStr allowed_versions))])
     \<and> map_of p ''license_type'' = Some (JStr license_type)
     \<and> map_of p ''exp'' =
           (if license_type = ''perpetual'' then None
            else map_option (\<lambda>d. JInt (py_int (timestamp (int now + timedelta_days d)))) duration_days)
     \<and> (license_type \<noteq> ''perpetual'' \<longrightarrow> duration_days \<noteq> None)
     \<and> map_of p ''instance_fingerprint'' =
           (if truthy_str instance_fingerprint then Some (JStr (the instance_fingerprint)) else None)
     \<and> map_of p ''nbf'' = None \<and> map_of p ''aud'' = None \<and> map_of p ''sub'' = None
     \<and> map fst p =
           [''jti'', ''iss'', ''iat'', ''customer'', ''module'', ''license_type'']
           @ (if license_type = ''perpetual'' then [] else [''exp''])
           @ (if truthy_str instance_fingerprint then [''instance_fingerprint''] else [])"
proof -
  let ?base = "[(''jti'', JStr license_id),
                 (''iss'', JStr (issuer svc)),
                 (''iat'', JInt (py_int (timestamp (int now)))),
                 (''customer'', JObj [(''id'', JStr customer_id), (''name'', JStr customer_name)]),
                 (''module'', JObj [(''technical_name'', JStr module_name),
                                   (''allowed_major_versions'', JList (map JStr allowed_versions))]),
                 (''license_type'', JStr license_type)]"
  let ?fp = "\<lambda>p. if truthy_str instance_fingerprint
                 then AList.update ''instance_fingerprint'' (JStr (the instance_fingerprint)) p
                 else p"
  from assms have lt: "license_type \<in> set valid_types"
    by (simp add: issue_license_def split: if_splits)
  show ?thesis
  proof (cases "license_type = ''perpetual''")
    case True
    with assms have "tok = jwt_encode lib (?fp ?base) (private_key svc) (key_id svc)"
      by (cases "truthy_str instance_fingerprint")
         (auto simp: issue_license_def valid_types_def Let_def)
    with True lt show ?thesis
      by (intro exI [of _ "?fp ?base"]) (simp add: update_conv' update_keys)
  next
    case False
    with lt have sd: "license_type \<in> set [''subscription'', ''demo'']"
      by (simp add: valid_types_def)
    with assms lt obtain d where d: "duration_days = Some d"
      by (cases duration_days) (simp_all add: issue_license_def)
    from assms lt sd d datetime_plus_days_cases [of "int now" d]
    have r: "datetime_plus_days (int now) d = Inr (int now + timedelta_days d)"
      by (auto simp: issue_license_def Let_def)
    let ?e = "JInt (py_int (timestamp (int now + timedelta_days d)))"
    from assms lt sd d
    have "tok = jwt_encode lib (?fp (AList.update ''exp'' ?e ?base)) (private_key svc) (key_id svc)"
      by (cases "truthy_str instance_fingerprint") (auto simp: issue_license_def Let_def r)
    with False lt d show ?thesis
      by (intro exI [of _ "?fp (AList.update ''exp'' ?e ?base)"]) (simp add: update_conv' update_keys)
  qed
qed

lemma py_int_timestamp:
  assumes "0 \<le> us"
  shows "py_int (timestamp us) = us div 1000000"
proof -
  have "\<lfloor>(of_int us :: rat) / of_int 1000000\<rfloor> = us div 1000000"
    by (rule floor_divide_of_int_eq)
  then have "\<lfloor>timestamp us\<rfloor> = us div 1000000" by (simp add: timestamp_def)
  moreover from assms have "0 \<le> timestamp us" by (simp add: timestamp_def)
  ultimately show ?thesis by (simp add: py_int_def)
qed

lemma expires_at_eq:
  assumes "0 \<le> int now + timedelta_days d"
  shows "py_int (timestamp (int now + timedelta_days d)) = py_int (timestamp (int now)) + d * 86400"
proof -
  have "(int now + (d * 86400) * 1000000) div 1000000 = int now div 1000000 + d * 86400"
    by simp
  moreover have "timedelta_days d = (d * 86400) * 1000000" by (simp add: timedelta_days_def)
  ultimately show ?thesis using assms by (simp add: py_int_timestamp)
qed

lemma issuer_check_eq:
  "map_of p ''iss'' = Some (JStr i) \<Longrightarrow>
   issuer_check p x = (if x = i then None else Some UntrustedIssuer)"
  by (auto simp: issuer_check_def claim_issuer_def)

lemma product_check_eq:
  "map_of p ''module'' = Some (JObj [(''technical_name'', JStr m), (''allowed_major_versions'', vs)]) \<Longrightarrow>
   product_check p x = (if x = m then None else Some ProductMismatch)"
  by (auto simp: product_check_def claim_product_name_def)

lemma version_check_eq:
  "map_of p ''module'' = Some (JObj [(''technical_name'', m),
      (''allowed_major_versions'', JList (map JStr vs))]) \<Longrightarrow>
   version_check p x = (if x \<in> set vs then None else Some VersionNotAllowed)"
  by (auto simp: version_check_def claim_allowed_versions_def in_versions)

lemma expiry_check_eq:
  "map_of p ''exp'' = None \<Longrightarrow> expiry_check p now = None"
  "map_of p ''exp'' = Some (JInt e) \<Longrightarrow>
   expiry_check p now = (if of_int e \<le> now then Some Expired else None)"
  by (simp_all add: expiry_check_def claim_expires_at_def)

lemma binding_check_eq:
  "map_of p ''instance_fingerprint'' = None \<Longrightarrow> binding_check lib p u d = None"
  "map_of p ''instance_fingerprint'' = Some (JStr f) \<Longrightarrow>
   binding_check lib p u d =
     (if \<not> (truthy_str u \<and> truthy_str d) then Some BindingContextMissing
      else if f \<noteq> generate_instance_fingerprint lib (the u) (the d) then Some InstanceMismatch
      else None)"
  by (simp_all add: binding_check_def claim_instance_fingerprint_def)

lemma policy_check_eq:
  "map_of p ''license_type'' = Some (JStr k) \<Longrightarrow> map_of p ''exp'' = None \<Longrightarrow>
   policy_check p = (if k = ''demo'' then Some PolicyViolation else None)"
  "map_of p ''exp'' = Some (JInt e) \<Longrightarrow> policy_check p = None"
  by (simp_all add: policy_check_def claim_license_kind_def claim_expires_at_def)

lemma claims_typedI:
  assumes "map_of p ''exp'' = None \<or> (\<exists>e. map_of p ''exp'' = Some (JInt e))"
    and "map_of p ''module'' = Some (JObj [(''technical_name'', m),
            (''allowed_major_versions'', JList vs)])"
    and "map_of p ''instance_fingerprint'' = None
         \<or> (\<exists>f. map_of p ''instance_fingerprint'' = Some (JStr f))"
    and "map_of p ''iat'' = Some (JInt t)" and "map_of p ''jti'' = Some (JStr j)"
    and "map_of p ''nbf'' = None" and "map_of p ''sub'' = None"
  shows "claims_typed p"
  using assms by (auto simp: claims_typed_def)

lemma verify_license_issued:
  assumes keys: "\<And>msg. ed25519_verify lib (public_key v) msg (ed25519_sign lib (private_key svc) msg)"
    and iss: "issue_license lib svc now license_id customer_id customer_name module_name
               allowed_versions license_type duration_days instance_fingerprint = Inr tok"
    and nonzero: "0 \<le> now' \<or> license_type = ''perpetual''
                  \<or> py_int (timestamp (int now + timedelta_days (the duration_days))) \<noteq> 0"
  shows "verify_license lib v decode_now now' tok m' ver u dm =
    (if decode_now < of_int (py_int (timestamp (int now))) then Inl Malformed
     else if license_type \<noteq> ''perpetual''
        \<and> of_int (py_int (timestamp (int now + timedelta_days (the duration_days)))) \<le> now'
       then Inl Expired
     else if expected_issuer v \<noteq> issuer svc then Inl UntrustedIssuer
     else if m' \<noteq> module_name then Inl ProductMismatch
     else if ver \<notin> set allowed_versions then Inl VersionNotAllowed
     else if truthy_str instance_fingerprint \<and> \<not> (truthy_str u \<and> truthy_str dm)
       then Inl BindingContextMissing
     else if truthy_str instance_fingerprint
             \<and> the instance_fingerprint \<noteq> generate_instance_fingerprint lib (the u) (the dm)
       then Inl InstanceMismatch
     else Inr (token_payload tok))"
proof -
  from issue_license_Inr [OF iss] obtain p where
    tok: "tok = jwt_encode lib p (private_key svc) (key_id svc)"
    and jti: "map_of p ''jti'' = Some (JStr license_id)"
    and pi: "map_of p ''iss'' = Some (JStr (issuer svc))"
    and iat: "map_of p ''iat'' = Some (JInt (py_int (timestamp (int now))))"
    and md: "map_of p ''module'' = Some (JObj [(''technical_name'', JStr module_name),
                                   (''allowed_major_versions'', JList (map JStr allowed_versions))])"
    and lt: "map_of p ''license_type'' = Some (JStr license_type)"
    and ex: "map_of p ''exp'' =
           (if license_type = ''perpetual'' then None
            else map_option (\<lambda>d. JInt (py_int (timestamp (int now + timedelta_days d)))) duration_days)"
    and dd: "license_type \<noteq> ''perpetual'' \<longrightarrow> duration_days \<noteq> None"
    and fp: "map_of p ''instance_fingerprint'' =
           (if truthy_str instance_fingerprint then Some (JStr (the instance_fingerprint)) else None)"
    and nbf: "map_of p ''nbf'' = None" and aud: "map_of p ''aud'' = None"
    and sub: "map_of p ''sub'' = None"
    by blast
  have tp: "token_payload tok = p" by (simp add: tok token_payload_encode)
  have ex': "map_of p ''exp'' = None \<or> (\<exists>e. map_of p ''exp'' = Some (JInt e))"
    using ex dd by (cases duration_days) auto
  have fp': "map_of p ''instance_fingerprint'' = None
         \<or> (\<exists>f. map_of p ''instance_fingerprint'' = Some (JStr f))"
    using fp by auto
  have typed: "claims_typed p" using ex' md fp' iat jti nbf sub by (rule claims_typedI)
  have dec: "jwt_decode lib (public_key v) decode_now tok =
       (if decode_now < of_int (py_int (timestamp (int now))) then Inl ImmatureSignatureError
        else Inr p)"
    unfolding tok jwt_decode_encode [of lib "public_key v" "private_key svc", OF keys]
      validate_claims_typed [OF typed]
    by (simp add: jti pi iat nbf aud claim_issued_at_def)
  show ?thesis
  proof (cases "decode_now < of_int (py_int (timestamp (int now)))")
    case True
    with dec have "jwt_decode lib (public_key v) decode_now tok = Inl ImmatureSignatureError"
      by simp
    from verify_license_decode_error [OF this] True show ?thesis by simp
  next
    case late: False
    with dec have dec': "jwt_decode lib (public_key v) decode_now tok = Inr p" by simp
    note v = verify_license_checks [OF dec' typed, of now' m' ver u dm]
    show ?thesis
    proof (cases "license_type = ''perpetual''")
      case True
      with ex have e: "map_of p ''exp'' = None" by simp
      show ?thesis
      proof (cases "truthy_str instance_fingerprint")
        case t: True
        with fp have f: "map_of p ''instance_fingerprint'' = Some (JStr (the instance_fingerprint))"
          by simp
        show ?thesis
          unfolding v tp
          by (simp add: expiry_check_eq(1) [OF e] issuer_check_eq [OF pi] product_check_eq [OF md]
                version_check_eq [OF md] binding_check_eq(2) [OF f] lt e late True t)
      next
        case t: False
        with fp have f: "map_of p ''instance_fingerprint'' = None" by simp
        show ?thesis
          unfolding v tp
          by (simp add: expiry_check_eq(1) [OF e] issuer_check_eq [OF pi] product_check_eq [OF md]
                version_check_eq [OF md] binding_check_eq(1) [OF f] lt e late True t)
      qed
    next
      case False
      with dd obtain d where d: "duration_days = Some d" by auto
      with ex False
      have e: "map_of p ''exp'' = Some (JInt (py_int (timestamp (int now + timedelta_days d))))"
        by simp
      show ?thesis
      proof (cases "of_int (py_int (timestamp (int now + timedelta_days d))) \<le> now'")
        case xp: True
        then show ?thesis
          unfolding v tp
          by (simp add: expiry_check_eq(2) [OF e] late False d)
      next
        case xp: False
        with nonzero False d have "py_int (timestamp (int now + timedelta_days d)) \<noteq> 0" by auto
        with e have tg: "truthy_get (map_of p ''exp'')" by simp
        show ?thesis
        proof (cases "truthy_str instance_fingerprint")
          case t: True
          with fp have f: "map_of p ''instance_fingerprint'' = Some (JStr (the instance_fingerprint))"
            by simp
          show ?thesis
            unfolding v tp
            by (simp add: expiry_check_eq(2) [OF e] issuer_check_eq [OF pi] product_check_eq [OF md]
                  version_check_eq [OF md] binding_check_eq(2) [OF f] lt tg xp late False t d)
        next
          case t: False
          with fp have f: "map_of p ''instance_fingerprint'' = None" by simp
          show ?thesis
            unfolding v tp
            by (simp add: expiry_check_eq(2) [OF e] issuer_check_eq [OF pi] product_check_eq [OF md]
                  version_check_eq [OF md] binding_check_eq(1) [OF f] lt tg xp late False t d)
        qed
      qed
    qed
  qed
qed

lemma verify_license_issued_early:
  assumes keys: "\<And>msg. ed25519_verify lib (public_key v) msg (ed25519_sign lib (private_key svc) msg)"
    and iss: "issue_license lib svc now license_id customer_id customer_name module_name
               allowed_versions license_type duration_days instance_fingerprint = Inr tok"
    and early: "decode_now < of_int (py_int (timestamp (int now)))"
  shows "verify_license lib v decode_now now' tok m' ver u dm = Inl Malformed"
proof -
  from issue_license_Inr [OF iss] obtain p where
    tok: "tok = jwt_encode lib p (private_key svc) (key_id svc)"
    and jti: "map_of p ''jti'' = Some (JStr license_id)"
    and pi: "map_of p ''iss'' = Some (JStr (issuer svc))"
    and iat: "map_of p ''iat'' = Some (JInt (py_int (timestamp (int now))))"
    by blast
  from early have "validate_claims lib p decode_now = Inl ImmatureSignatureError"
    by (simp add: validate_claims_def jti pi iat)
  then have "jwt_decode lib (public_key v) decode_now tok = Inl ImmatureSignatureError"
    unfolding tok jwt_decode_encode [of lib "public_key v" "private_key svc", OF keys] .
  from verify_license_decode_error [OF this] show ?thesis by simp
qed

lemma py_raise_Uncaught:
  "py_ge q x = Inl e \<Longrightarrow> e = Uncaught"
  "py_get y k = Inl e \<Longrightarrow> e = Uncaught"
  "py_in s y = Inl e \<Longrightarrow> e = Uncaught"
  by (cases x; simp) (cases y; simp)+

lemma except_clauses_cases:
  "except_clauses e = Malformed \<or> except_clauses e = InvalidSignature \<or> except_clauses e = Uncaught"
  by (cases e) simp_all

lemma verify_license_Expired_D:
  assumes "verify_license lib v decode_now now tok m ver u d = Inl Expired"
  shows "\<exists>e. map_of (token_payload tok) ''exp'' = Some (JInt e) \<and> of_int e \<le> now"
proof (cases "jwt_decode lib (public_key v) decode_now tok")
  case (Inl e)
  with assms except_clauses_cases [of e] show ?thesis by (auto simp: verify_license_def)
next
  case (Inr p)
  from jwt_decode_Inr(1) [OF Inr] have tp: "token_payload tok = p" by simp
  show ?thesis
  proof (cases "map_of p ''exp''")
    case None
    with assms Inr have False
      by (auto simp: verify_license_def Let_def split: if_splits sum.splits
            dest: py_raise_Uncaught)
    then show ?thesis ..
  next
    case (Some x)
    show ?thesis
    proof (cases x)
      case (JInt e)
      with assms Inr Some have "of_int e \<le> now"
        by (auto simp: verify_license_def Let_def split: if_splits sum.splits
              dest: py_raise_Uncaught)
      with Some JInt tp show ?thesis by simp
    qed (use assms Inr Some in \<open>simp_all add: verify_license_def\<close>)
  qed
qed

lemma issue_license_succeeds:
  assumes "license_type \<in> set valid_types"
    and "license_type \<noteq> ''perpetual'' \<longrightarrow>
           duration_days \<noteq> None \<and> \<not> isl (datetime_plus_days (int now) (the duration_days))"
  shows "\<exists>tok. issue_license lib svc now license_id customer_id customer_name module_name
               allowed_versions license_type duration_days instance_fingerprint = Inr tok"
proof (cases "license_type = ''perpetual''")
  case True
  then show ?thesis by (simp add: issue_license_def valid_types_def Let_def)
next
  case False
  with assms have k: "license_type = ''subscription'' \<or> license_type = ''demo''"
    and d: "duration_days \<noteq> None"
    and r: "\<not> isl (datetime_plus_days (int now) (the duration_days))"
    by (simp_all add: valid_types_iff)
  from issue_license_by_duration [OF k, of lib svc now license_id customer_id customer_name
         "module_name" allowed_versions duration_days instance_fingerprint] d r
  have "\<not> isl (issue_license lib svc now license_id customer_id customer_name module_name
               allowed_versions license_type duration_days instance_fingerprint)"
    by simp
  then show ?thesis
    by (cases "issue_license lib svc now license_id customer_id customer_name module_name
               allowed_versions license_type duration_days instance_fingerprint") simp_all
qed

lemma issued_payload:
  assumes "issue_license lib svc now license_id customer_id customer_name module_name
             allowed_versions license_type duration_days instance_fingerprint = Inr tok"
  shows "map_of (token_payload tok) ''iat'' = Some (JInt (py_int (timestamp (int now))))"
    and "map_of (token_payload tok) ''exp'' =
           (if license_type = ''perpetual'' then None
            else map_option (\<lambda>d. JInt (py_int (timestamp (int now + timedelta_days d)))) duration_days)"
    and "map_of (token_payload tok) ''instance_fingerprint'' =
           (if truthy_str instance_fingerprint then Some (JStr (the instance_fingerprint)) else None)"
  using issue_license_Inr [OF assms] by (auto simp: token_payload_encode)

lemma issued_at_nonneg: "0 \<le> py_int (timestamp (int now))"
  by (simp add: py_int_timestamp)

text \<open>
  C1, as the code has it. Take a parameter set with a recognised kind and, for a
  subscription or demo license, a positive duration, the issuing time and the expiry time
  being in the range of exact timestamps. \<open>issue_license\<close> returns a token. A verifier that
  holds the matching public key and trusts the issuer, and whose clock reads no less than
  \<open>issued_at\<close> when the library validates the token, asked for the product of the
  license at a time before \<open>issued_at\<close> plus the duration, fails with
  \<open>VersionNotAllowed\<close> for every version that is not allowed, whatever the context, and
  succeeds for every allowed version when the token carries no fingerprint or the context
  is the one the fingerprint was computed from.
\<close>

theorem issued_license_verifies_allowed_versions:
  assumes keys: "\<And>msg. ed25519_verify lib (public_key v) msg (ed25519_sign lib (private_key svc) msg)"
    and trusted: "expected_issuer v = issuer svc"
    and kind: "license_type \<in> set valid_types"
    and range: "exact_seconds (int now)"
    and dur: "license_type \<noteq> ''perpetual'' \<longrightarrow>
               (\<exists>d. duration_days = Some d \<and> 0 < d
                  \<and> exact_seconds (int now + timedelta_days d)
                  \<and> now' < of_int (py_int (timestamp (int now)) + d * 86400))"
    and issued: "of_int (py_int (timestamp (int now))) \<le> decode_now"
  shows "\<exists>tok. issue_license lib svc now license_id customer_id customer_name module_name
                  allowed_versions license_type duration_days instance_fingerprint = Inr tok
     \<and> (\<forall>ver u dm. ver \<notin> set allowed_versions \<longrightarrow>
            verify_license lib v decode_now now' tok module_name ver u dm = Inl VersionNotAllowed)
     \<and> (\<forall>ver u dm. ver \<in> set allowed_versions \<longrightarrow>
            (\<not> truthy_str instance_fingerprint
             \<or> truthy_str u \<and> truthy_str dm
               \<and> the instance_fingerprint = generate_instance_fingerprint lib (the u) (the dm)) \<longrightarrow>
            verify_license lib v decode_now now' tok module_name ver u dm = Inr (token_payload tok))"
proof -
  have "license_type \<noteq> ''perpetual'' \<longrightarrow>
           duration_days \<noteq> None \<and> \<not> isl (datetime_plus_days (int now) (the duration_days))"
  proof
    assume "license_type \<noteq> ''perpetual''"
    with dur obtain d where d: "duration_days = Some d" "0 < d"
      "exact_seconds (int now + timedelta_days d)"
      by blast
    from d(2) have "0 \<le> d" by simp
    from exact_seconds_plus_days [OF this d(3)] d(1)
    show "duration_days \<noteq> None \<and> \<not> isl (datetime_plus_days (int now) (the duration_days))"
      by simp
  qed
  with kind obtain tok where
    tok: "issue_license lib svc now license_id customer_id customer_name module_name
            allowed_versions license_type duration_days instance_fingerprint = Inr tok"
    using issue_license_succeeds by blast
  have live: "\<not> (license_type \<noteq> ''perpetual''
        \<and> of_int (py_int (timestamp (int now + timedelta_days (the duration_days)))) \<le> now')"
  proof (cases "license_type = ''perpetual''")
    case False
    with dur obtain d where d: "duration_days = Some d" "0 < d"
      and t: "now' < of_int (py_int (timestamp (int now)) + d * 86400)"
      by blast
    from d(2) have "0 \<le> int now + timedelta_days d" by (simp add: timedelta_days_def)
    from expires_at_eq [OF this] t d(1) show ?thesis by simp
  qed simp
  from live have live':
    "(license_type \<noteq> ''perpetual''
        \<and> of_int (py_int (timestamp (int now + timedelta_days (the duration_days)))) \<le> now') = False"
    by simp
  from issued have early: "(decode_now < of_int (py_int (timestamp (int now)))) = False"
    by simp
  have nonzero: "0 \<le> now' \<or> license_type = ''perpetual''
                  \<or> py_int (timestamp (int now + timedelta_days (the duration_days))) \<noteq> 0"
  proof (cases "license_type = ''perpetual''")
    case False
    with dur obtain d where d: "duration_days = Some d" "0 < d" by blast
    from d(2) have "0 \<le> int now + timedelta_days d" by (simp add: timedelta_days_def)
    from expires_at_eq [OF this] issued_at_nonneg [of now] d show ?thesis by simp
  qed simp
  note v = verify_license_issued [OF keys tok nonzero, of decode_now, unfolded live' early trusted]
  from tok show ?thesis
    by (intro exI [of _ tok]) (auto simp: v)
qed

lemma test_keys:
  "ed25519_verify test_crypto (public_key test_verifier) msg
     (ed25519_sign test_crypto (private_key test_service) msg)"
  by (simp add: test_crypto_def test_verifier_def test_service_def)

lemma test_trusted: "expected_issuer test_verifier = issuer test_service"
  by (simp add: test_verifier_def test_service_def)

lemma test_issued_at:
  "py_int (timestamp (int 1500000)) = 1"
  "py_int (timestamp 1500000) = 1"
  by (simp_all add: py_int_timestamp)

lemma test_issue_perpetual:
  "test_issue ''perpetual'' duration_days None = Inr (test_sign (test_issued_payload ''perpetual''))"
  by (simp add: test_issue_def issue_license_def valid_types_def Let_def test_issued_at
        test_sign_def test_service_def test_issued_payload_def)

lemma test_issue_bound:
  "test_issue ''perpetual'' duration_days (Some ''sha256:ab'')
     = Inr (test_sign (test_issued_payload ''perpetual''
                        @ [(''instance_fingerprint'', JStr ''sha256:ab'')]))"
  by (simp add: test_issue_def issue_license_def valid_types_def Let_def test_issued_at
        test_sign_def test_service_def test_issued_payload_def)

lemma test_plus_days:
  "datetime_plus_days 1500000 30 = Inr 2592001500000"
  "datetime_plus_days 1500000 4000000 = Inl OutOfRange"
  by (simp_all add: datetime_plus_days_def timedelta_days_def datetime_min_def datetime_max_def)

lemma test_expires_at: "py_int (timestamp 2592001500000) = 2592001"
  by (simp add: py_int_timestamp)

lemma test_issue_demo:
  "test_issue ''demo'' (Some 30) None
     = Inr (test_sign (test_issued_payload ''demo'' @ [(''exp'', JInt 2592001)]))"
  by (simp add: test_issue_def issue_license_def valid_types_def Let_def test_issued_at
        test_plus_days test_expires_at test_sign_def test_service_def test_issued_payload_def)

lemma test_issue_overflow: "test_issue ''demo'' (Some 4000000) None = Inl OutOfRange"
  by (simp add: test_issue_def issue_license_def valid_types_def Let_def test_plus_days)

lemma test_exact_seconds:
  "exact_seconds (int 1500000)" "exact_seconds (int 1500000 + timedelta_days 30)"
  by (simp_all add: exact_seconds_def timedelta_days_def)

theorem issued_license_verifies_allowed_versions_witness:
  "(\<forall>msg. ed25519_verify test_crypto (public_key test_verifier) msg
            (ed25519_sign test_crypto (private_key test_service) msg))
   \<and> expected_issuer test_verifier = issuer test_service
   \<and> ''demo'' \<in> set valid_types
   \<and> exact_seconds (int 1500000)
   \<and> (0::int) < 30
   \<and> exact_seconds (int 1500000 + timedelta_days 30)
   \<and> (2::rat) < of_int (py_int (timestamp (int 1500000)) + 30 * 86400)
   \<and> of_int (py_int (timestamp (int 1500000))) \<le> (2::rat)
   \<and> verify_license test_crypto test_verifier 2 2 (projr (test_issue ''demo'' (Some 30) None))
        ''payroll'' ''18'' None None
      = Inr (token_payload (projr (test_issue ''demo'' (Some 30) None)))
   \<and> verify_license test_crypto test_verifier 2 2 (projr (test_issue ''demo'' (Some 30) None))
        ''payroll'' ''16'' None None
      = Inl VersionNotAllowed"
proof -
  have t: "(2::rat) < of_int (py_int (timestamp (int 1500000)) + 30 * 86400)"
    and i: "of_int (py_int (timestamp (int 1500000))) \<le> (2::rat)"
    unfolding test_issued_at by simp_all
  have k: "''demo'' \<in> set valid_types" by (simp add: valid_types_def)
  have d: "''demo'' \<noteq> ''perpetual'' \<longrightarrow>
             (\<exists>d. Some 30 = Some d \<and> 0 < d \<and> exact_seconds (int 1500000 + timedelta_days d)
                \<and> (2::rat) < of_int (py_int (timestamp (int 1500000)) + d * 86400))"
    using t test_exact_seconds(2) by simp
  from issued_license_verifies_allowed_versions [of test_crypto test_verifier test_service
         "''demo''" 1500000 "Some 30" 2 2 "''L1''" "''C1''" "''Acme''" "''payroll''"
         "[''17'', ''18'']" None, OF test_keys test_trusted k test_exact_seconds(1) d i]
  obtain tok where "test_issue ''demo'' (Some 30) None = Inr tok"
    and "\<forall>ver u dm. ver \<notin> set [''17'', ''18''] \<longrightarrow>
            verify_license test_crypto test_verifier 2 2 tok ''payroll'' ver u dm
              = Inl VersionNotAllowed"
    and "\<forall>ver u dm. ver \<in> set [''17'', ''18''] \<longrightarrow>
            (\<not> truthy_str None
             \<or> truthy_str u \<and> truthy_str dm
               \<and> the None = generate_instance_fingerprint test_crypto (the u) (the dm)) \<longrightarrow>
            verify_license test_crypto test_verifier 2 2 tok ''payroll'' ver u dm
              = Inr (token_payload tok)"
    unfolding test_issue_def by auto
  with t i k test_keys test_trusted test_exact_seconds show ?thesis by simp
qed

text \<open>
  C1 as stated fails, in three ways. A perpetual license issued with an instance fingerprint,
  verified for its product and an allowed version with no context, is refused with
  \<open>BindingContextMissing\<close>. A perpetual license issued when the issuer's clock reads 1.5
  seconds, verified for its product and an allowed version by a verifier whose clock reads
  half a second, is refused as \<open>Malformed\<close>. A demo license asked for 4000000 days is not
  issued: the issuer fails with \<open>OverflowError\<close>.
\<close>

theorem bound_license_without_context_counterexample:
  "\<not> isl (test_issue ''perpetual'' None (Some ''sha256:ab''))
   \<and> ''18'' \<in> set [''17'', ''18'']
   \<and> verify_license test_crypto test_verifier 2 2
        (projr (test_issue ''perpetual'' None (Some ''sha256:ab''))) ''payroll'' ''18'' None None
      = Inl BindingContextMissing
   \<and> \<not> isl (test_issue ''perpetual'' None None)
   \<and> verify_license test_crypto test_verifier (1 / 2) (1 / 2)
        (projr (test_issue ''perpetual'' None None)) ''payroll'' ''18'' None None
      = Inl Malformed
   \<and> (0::int) < 4000000
   \<and> test_issue ''demo'' (Some 4000000) None = Inl OutOfRange"
proof -
  have a: "verify_license test_crypto test_verifier 2 2
        (test_sign (test_issued_payload ''perpetual''
                        @ [(''instance_fingerprint'', JStr ''sha256:ab'')]))
        ''payroll'' ''18'' None None = Inl BindingContextMissing"
    by (simp add: verify_license_def test_verifier_simps test_sign_decode validate_claims_def
          test_issued_payload_def py_get_default_def)
  have b: "verify_license test_crypto test_verifier (1 / 2) (1 / 2)
        (test_sign (test_issued_payload ''perpetual'')) ''payroll'' ''18'' None None
      = Inl Malformed"
    by (simp add: verify_license_def test_verifier_simps test_sign_decode validate_claims_def
          test_issued_payload_def)
  from a b show ?thesis
    by (simp add: test_issue_perpetual test_issue_bound test_issue_overflow)
qed

text \<open>
  C7, as the code has it. A subscription or demo token issued with a duration of \<open>d\<close> days,
  the issuing time and the expiry time being in the range of exact timestamps, carries
  \<open>exp = iat + 86400 * d\<close>. Take a verifier that holds the matching public key and whose
  clock reads no less than \<open>iat\<close> when the library validates the token. It fails with
  \<open>Expired\<close> at every clock reading at or after \<open>exp\<close>, the instant itself included,
  whatever else is asked; at every earlier reading that is not before the epoch it returns
  the claims, the issuer being trusted, the product and the version the ones of the
  license, and the context the one the license is bound to, if it is bound. A verifier
  whose clock reads less than \<open>iat\<close> when the library validates the token refuses it as
  \<open>Malformed\<close>, whatever the clock reads afterwards.
\<close>

theorem expiry_is_issued_at_plus_duration:
  assumes keys: "\<And>msg. ed25519_verify lib (public_key v) msg (ed25519_sign lib (private_key svc) msg)"
    and kind: "license_type = ''subscription'' \<or> license_type = ''demo''"
    and range: "exact_seconds (int now)" "exact_seconds (int now + timedelta_days d)"
    and tok: "issue_license lib svc now license_id customer_id customer_name module_name
               allowed_versions license_type (Some d) instance_fingerprint = Inr tok"
  shows "map_of (token_payload tok) ''iat'' = Some (JInt (py_int (timestamp (int now))))
     \<and> map_of (token_payload tok) ''exp'' = Some (JInt (py_int (timestamp (int now)) + d * 86400))
     \<and> (\<forall>decode_now now' m ver u dm.
           of_int (py_int (timestamp (int now))) \<le> decode_now \<longrightarrow>
           of_int (py_int (timestamp (int now)) + d * 86400) \<le> now' \<longrightarrow>
           verify_license lib v decode_now now' tok m ver u dm = Inl Expired)
     \<and> (\<forall>decode_now now' ver u dm.
           of_int (py_int (timestamp (int now))) \<le> decode_now \<longrightarrow>
           0 \<le> now' \<longrightarrow>
           now' < of_int (py_int (timestamp (int now)) + d * 86400) \<longrightarrow>
           expected_issuer v = issuer svc \<longrightarrow>
           ver \<in> set allowed_versions \<longrightarrow>
           (\<not> truthy_str instance_fingerprint
             \<or> truthy_str u \<and> truthy_str dm
               \<and> the instance_fingerprint = generate_instance_fingerprint lib (the u) (the dm)) \<longrightarrow>
           verify_license lib v decode_now now' tok module_name ver u dm = Inr (token_payload tok))
     \<and> (\<forall>decode_now now' m ver u dm.
           decode_now < of_int (py_int (timestamp (int now))) \<longrightarrow>
           verify_license lib v decode_now now' tok m ver u dm = Inl Malformed)"
proof -
  from range(2) have nn: "0 \<le> int now + timedelta_days d" by (simp add: exact_seconds_def)
  note e = expires_at_eq [OF nn]
  from nn have en: "0 \<le> py_int (timestamp (int now + timedelta_days d))"
    by (simp add: py_int_timestamp)
  from kind have np: "license_type \<noteq> ''perpetual''" by auto
  from issued_payload(1,2) [OF tok] np e
  have "map_of (token_payload tok) ''iat'' = Some (JInt (py_int (timestamp (int now))))"
    and "map_of (token_payload tok) ''exp'' = Some (JInt (py_int (timestamp (int now)) + d * 86400))"
    by simp_all
  moreover have "\<forall>decode_now now' m ver u dm.
           of_int (py_int (timestamp (int now))) \<le> decode_now \<longrightarrow>
           of_int (py_int (timestamp (int now)) + d * 86400) \<le> now' \<longrightarrow>
           verify_license lib v decode_now now' tok m ver u dm = Inl Expired"
  proof (intro allI impI)
    fix decode_now now' :: rat and m ver u dm
    assume i: "of_int (py_int (timestamp (int now))) \<le> decode_now"
      and x: "of_int (py_int (timestamp (int now)) + d * 86400) \<le> now'"
    from en e have "(0::rat) \<le> of_int (py_int (timestamp (int now)) + d * 86400)" by simp
    with x have "0 \<le> now'" by linarith
    then have nonzero: "0 \<le> now' \<or> license_type = ''perpetual''
                  \<or> py_int (timestamp (int now + timedelta_days (the (Some d)))) \<noteq> 0"
      by simp
    from i have early: "(decode_now < of_int (py_int (timestamp (int now)))) = False" by simp
    from verify_license_issued [OF keys tok nonzero, of decode_now m ver u dm,
           unfolded option.sel e early] x np
    show "verify_license lib v decode_now now' tok m ver u dm = Inl Expired" by simp
  qed
  moreover have "\<forall>decode_now now' ver u dm.
           of_int (py_int (timestamp (int now))) \<le> decode_now \<longrightarrow>
           0 \<le> now' \<longrightarrow>
           now' < of_int (py_int (timestamp (int now)) + d * 86400) \<longrightarrow>
           expected_issuer v = issuer svc \<longrightarrow>
           ver \<in> set allowed_versions \<longrightarrow>
           (\<not> truthy_str instance_fingerprint
             \<or> truthy_str u \<and> truthy_str dm
               \<and> the instance_fingerprint = generate_instance_fingerprint lib (the u) (the dm)) \<longrightarrow>
           verify_license lib v decode_now now' tok module_name ver u dm = Inr (token_payload tok)"
  proof (intro allI impI)
    fix decode_now now' :: rat and ver u dm
    assume i: "of_int (py_int (timestamp (int now))) \<le> decode_now"
      and nonneg: "0 \<le> now'"
      and x: "now' < of_int (py_int (timestamp (int now)) + d * 86400)"
      and tr: "expected_issuer v = issuer svc"
      and ver: "ver \<in> set allowed_versions"
      and b: "\<not> truthy_str instance_fingerprint
             \<or> truthy_str u \<and> truthy_str dm
               \<and> the instance_fingerprint = generate_instance_fingerprint lib (the u) (the dm)"
    from nonneg have nonzero: "0 \<le> now' \<or> license_type = ''perpetual''
                  \<or> py_int (timestamp (int now + timedelta_days (the (Some d)))) \<noteq> 0"
      by simp
    from i have early: "(decode_now < of_int (py_int (timestamp (int now)))) = False" by simp
    from verify_license_issued [OF keys tok nonzero, of decode_now "module_name" ver u dm,
           unfolded option.sel e early] x tr ver b
    show "verify_license lib v decode_now now' tok module_name ver u dm = Inr (token_payload tok)"
      by auto
  qed
  moreover have "\<forall>decode_now now' m ver u dm.
           decode_now < of_int (py_int (timestamp (int now))) \<longrightarrow>
           verify_license lib v decode_now now' tok m ver u dm = Inl Malformed"
    using verify_license_issued_early [OF keys tok] by blast
  ultimately show ?thesis by blast
qed

theorem expiry_is_issued_at_plus_duration_witness:
  "(\<forall>msg. ed25519_verify test_crypto (public_key test_verifier) msg
            (ed25519_sign test_crypto (private_key test_service) msg))
   \<and> (''demo'' = ''subscription'' \<or> ''demo'' = ''demo'')
   \<and> exact_seconds (int 1500000) \<and> exact_seconds (int 1500000 + timedelta_days 30)
   \<and> \<not> isl (test_issue ''demo'' (Some 30) None)
   \<and> map_of (token_payload (projr (test_issue ''demo'' (Some 30) None))) ''iat'' = Some (JInt 1)
   \<and> map_of (token_payload (projr (test_issue ''demo'' (Some 30) None))) ''exp''
        = Some (JInt 2592001)
   \<and> verify_license test_crypto test_verifier 2592001 2592001
        (projr (test_issue ''demo'' (Some 30) None)) ''payroll'' ''18'' None None = Inl Expired
   \<and> verify_license test_crypto test_verifier 2 (2592000999999 / 1000000)
        (projr (test_issue ''demo'' (Some 30) None)) ''payroll'' ''18'' None None
      = Inr (token_payload (projr (test_issue ''demo'' (Some 30) None)))"
proof -
  obtain tok where tok: "test_issue ''demo'' (Some 30) None = Inr tok"
    using test_issue_demo by blast
  have k: "''demo'' = ''subscription'' \<or> ''demo'' = ''demo''" by simp
  have late: "rat_of_int (1 + 30 * 86400) \<le> 2592001"
    and early: "(2592000999999 / 1000000 :: rat) < rat_of_int (1 + 30 * 86400)"
    and i1: "rat_of_int 1 \<le> 2592001" and i2: "rat_of_int 1 \<le> 2"
    and n: "(0::rat) \<le> 2592000999999 / 1000000"
    by simp_all
  from expiry_is_issued_at_plus_duration [OF test_keys k test_exact_seconds
         tok [unfolded test_issue_def], unfolded test_issued_at]
    late early i1 i2 n test_trusted tok test_keys test_exact_seconds
  show ?thesis by simp
qed

text \<open>
  C7 as stated fails: a demo license of 30 days is issued when the issuer's clock reads 1.5
  seconds, so \<open>iat\<close> is 1 and \<open>exp\<close> is 2592001. A verifier whose clock reads half a second
  is before \<open>iat\<close> plus 30 days, and none of the other checks of the specification fails
  on the token; \<open>verify_license\<close> refuses it as \<open>Malformed\<close>.
\<close>

theorem verifier_clock_before_issue_counterexample:
  "test_issue ''demo'' (Some 30) None
     = Inr (test_sign (test_issued_payload ''demo'' @ [(''exp'', JInt 2592001)]))
   \<and> (1 / 2 :: rat) < of_int (1 + 30 * 86400)
   \<and> first_failure (specified_pipeline test_crypto test_verifier (1 / 2)
        (test_sign (test_issued_payload ''demo'' @ [(''exp'', JInt 2592001)]))
        ''payroll'' ''18'' None None) = None
   \<and> verify_license test_crypto test_verifier (1 / 2) (1 / 2)
        (test_sign (test_issued_payload ''demo'' @ [(''exp'', JInt 2592001)]))
        ''payroll'' ''18'' None None = Inl Malformed"
proof -
  have a: "first_failure (specified_pipeline test_crypto test_verifier (1 / 2)
        (test_sign (test_issued_payload ''demo'' @ [(''exp'', JInt 2592001)]))
        ''payroll'' ''18'' None None) = None"
    by (simp add: specified_pipeline_def test_sign_structural test_sign_payload
          mandatory_claims_check_def expiry_check_def claim_expires_at_def issuer_check_def
          claim_issuer_def product_check_def claim_product_name_def version_check_def
          claim_allowed_versions_def specified_binding_check_def claim_instance_fingerprint_def
          policy_check_def claim_license_kind_def test_verifier_simps test_issued_payload_def)
  have b: "verify_license test_crypto test_verifier (1 / 2) (1 / 2)
        (test_sign (test_issued_payload ''demo'' @ [(''exp'', JInt 2592001)]))
        ''payroll'' ''18'' None None = Inl Malformed"
    by (simp add: verify_license_def test_verifier_simps test_sign_decode validate_claims_def
          test_issued_payload_def)
  from a b test_issue_demo show ?thesis by simp
qed

text \<open>
  C8. A token issued with the perpetual kind, whether or not a duration was passed along,
  has no \<open>exp\<close> claim, and no verifier fails on it with \<open>Expired\<close>, at any clock reading,
  for any key, product, version and context.
\<close>

theorem perpetual_license_never_expires:
  assumes "issue_license lib svc now license_id customer_id customer_name module_name
             allowed_versions ''perpetual'' duration_days instance_fingerprint = Inr tok"
  shows "map_of (token_payload tok) ''exp'' = None
     \<and> verify_license lib' v decode_now now' tok m ver u dm \<noteq> Inl Expired"
proof -
  from issued_payload(2) [OF assms] have e: "map_of (token_payload tok) ''exp'' = None" by simp
  with verify_license_Expired_D [of lib' v decode_now now' tok m ver u dm] show ?thesis by auto
qed

theorem perpetual_license_never_expires_witness:
  "\<not> isl (test_issue ''perpetual'' (Some 30) None)
   \<and> map_of (token_payload (projr (test_issue ''perpetual'' (Some 30) None))) ''exp'' = None
   \<and> verify_license test_crypto test_verifier 900000000000 900000000000
        (projr (test_issue ''perpetual'' (Some 30) None)) ''payroll'' ''18'' None None
      \<noteq> Inl Expired"
proof -
  obtain tok where tok: "test_issue ''perpetual'' (Some 30) None = Inr tok"
    using test_issue_perpetual by blast
  from perpetual_license_never_expires [OF tok [unfolded test_issue_def], of test_crypto
         test_verifier 900000000000 900000000000 "''payroll''" "''18''" None None] tok
  show ?thesis by simp
qed

section \<open>Binding and policy\<close>

















section \<open>Signing and inspection\<close>

lemma token_signature_encode:
  "token_signature (jwt_encode lib p sk kid) = ed25519_sign lib sk (signing_input (encode_header kid) p)"
  by (simp add: token_signature_def jwt_encode_def encode_header_def Let_def)

lemma get_license_info_encode:
  "get_license_info lib (jwt_encode lib' p sk kid) =
     (case format_timestamp lib (map_of p ''iat'') of
        Inl e \<Rightarrow> InfoError
      | Inr iat \<Rightarrow>
          (case format_timestamp lib (map_of p ''exp'') of
             Inl e \<Rightarrow> InfoError
           | Inr expires \<Rightarrow>
               Info \<lparr>info_license_id = map_of p ''jti'',
                     info_customer = py_get_default p ''customer'' (JObj []),
                     info_module = py_get_default p ''module'' (JObj []),
                     info_license_type = map_of p ''license_type'',
                     info_issued_at = iat,
                     info_expires_at = expires,
                     info_is_bound = (map_of p ''instance_fingerprint'' \<noteq> None)\<rparr>))"
  by (simp add: get_license_info_def jwt_decode_unverified_def jwt_encode_def Let_def)

lemma verify_license_other_key:
  assumes "\<not> ed25519_verify lib (public_key v) (signing_input (encode_header kid) p)
               (ed25519_sign lib sk (signing_input (encode_header kid) p))"
  shows "verify_license lib v decode_now now (jwt_encode lib p sk kid) m ver u d
       = Inl InvalidSignature"
  using assms
  by (simp add: verify_license_def jwt_decode_def jwt_encode_def encode_header_def Let_def)

text \<open>
  An association list is determined by the order of its keys, when they are distinct, and
  by the map it represents.
\<close>

lemma alist_eqI:
  assumes "map fst xs = map fst ys" and "distinct (map fst xs)" and "map_of xs = map_of ys"
  shows "xs = ys"
  using assms
proof (induction xs arbitrary: ys)
  case Nil
  then show ?case by simp
next
  case (Cons x xs)
  from Cons.prems(1) obtain y ys' where ys: "ys = y # ys'"
    and k: "fst x = fst y" and ks: "map fst xs = map fst ys'"
    by (cases ys) auto
  have "map_of (x # xs) (fst x) = map_of ys (fst x)" by (simp only: Cons.prems(3))
  with ys k have v: "snd x = snd y" by simp
  with k have xy: "x = y" by (simp add: prod_eq_iff)
  from Cons.prems(2) have nx: "fst x \<notin> fst ` set xs" and dx: "distinct (map fst xs)" by auto
  from nx ks have ny: "fst x \<notin> fst ` set ys'" by (metis set_map)
  have "map_of xs = map_of ys'"
  proof
    fix a
    show "map_of xs a = map_of ys' a"
    proof (cases "a = fst x")
      case True
      from nx have "map_of xs (fst x) = None" by (simp add: map_of_eq_None_iff)
      moreover from ny have "map_of ys' (fst x) = None" by (simp add: map_of_eq_None_iff)
      ultimately show ?thesis using True by simp
    next
      case False
      have "map_of (x # xs) a = map_of ys a" by (simp only: Cons.prems(3))
      with False ys k show ?thesis by simp
    qed
  qed
  with Cons.IH [OF ks dx] xy ys show ?case by simp
qed

text \<open>
  The keys of an issued payload are distinct, and their order is fixed by the code: the
  six claims of every license, then \<open>exp\<close> if the payload has one, then
  \<open>instance_fingerprint\<close> if the payload has one.
\<close>

lemma issue_license_keys:
  assumes "issue_license lib svc now license_id customer_id customer_name module_name
             allowed_versions license_type duration_days instance_fingerprint = Inr tok"
  shows "map fst (token_payload tok) =
           [''jti'', ''iss'', ''iat'', ''customer'', ''module'', ''license_type'']
           @ (if map_of (token_payload tok) ''exp'' \<noteq> None then [''exp''] else [])
           @ (if map_of (token_payload tok) ''instance_fingerprint'' \<noteq> None
              then [''instance_fingerprint''] else [])"
    and "distinct (map fst (token_payload tok))"
proof -
  from issue_license_Inr [OF assms] obtain p where
    tok: "tok = jwt_encode lib p (private_key svc) (key_id svc)"
    and ex: "map_of p ''exp'' =
           (if license_type = ''perpetual'' then None
            else map_option (\<lambda>d. JInt (py_int (timestamp (int now + timedelta_days d)))) duration_days)"
    and dd: "license_type \<noteq> ''perpetual'' \<longrightarrow> duration_days \<noteq> None"
    and fp: "map_of p ''instance_fingerprint'' =
           (if truthy_str instance_fingerprint then Some (JStr (the instance_fingerprint)) else None)"
    and keys: "map fst p =
           [''jti'', ''iss'', ''iat'', ''customer'', ''module'', ''license_type'']
           @ (if license_type = ''perpetual'' then [] else [''exp''])
           @ (if truthy_str instance_fingerprint then [''instance_fingerprint''] else [])"
    by blast
  have tp: "token_payload tok = p" by (simp add: tok token_payload_encode)
  from ex dd have e: "(map_of p ''exp'' \<noteq> None) = (license_type \<noteq> ''perpetual'')"
    by (cases duration_days) auto
  from fp have f: "(map_of p ''instance_fingerprint'' \<noteq> None) = truthy_str instance_fingerprint"
    by simp
  show "map fst (token_payload tok) =
           [''jti'', ''iss'', ''iat'', ''customer'', ''module'', ''license_type'']
           @ (if map_of (token_payload tok) ''exp'' \<noteq> None then [''exp''] else [])
           @ (if map_of (token_payload tok) ''instance_fingerprint'' \<noteq> None
              then [''instance_fingerprint''] else [])"
    unfolding tp e f keys by simp
  show "distinct (map fst (token_payload tok))"
    unfolding tp keys by simp
qed

lemma issue_license_signature:
  assumes "issue_license lib svc now license_id customer_id customer_name module_name
             allowed_versions license_type duration_days instance_fingerprint = Inr tok"
  shows "token_signature tok =
           ed25519_sign lib (private_key svc)
             (signing_input (encode_header (key_id svc)) (token_payload tok))"
  using issue_license_Inr [OF assms]
  by (auto simp: token_signature_encode token_payload_encode)

lemma issue_license_canonical:
  assumes a: "issue_license lib svc now license_id customer_id customer_name module_name
             allowed_versions license_type duration_days instance_fingerprint = Inr tok"
    and b: "issue_license lib svc' now' license_id' customer_id' customer_name' module_name'
             allowed_versions' license_type' duration_days' instance_fingerprint' = Inr tok'"
    and same: "map_of (token_payload tok) = map_of (token_payload tok')"
  shows "token_payload tok = token_payload tok'"
    and "private_key svc' = private_key svc \<Longrightarrow> key_id svc' = key_id svc \<Longrightarrow>
         token_signature tok = token_signature tok'"
proof -
  have "map fst (token_payload tok) = map fst (token_payload tok')"
    unfolding issue_license_keys(1) [OF a] issue_license_keys(1) [OF b] same ..
  from this issue_license_keys(2) [OF a] same
  show p: "token_payload tok = token_payload tok'" by (rule alist_eqI)
  assume "private_key svc' = private_key svc" "key_id svc' = key_id svc"
  with p show "token_signature tok = token_signature tok'"
    by (simp add: issue_license_signature [OF a] issue_license_signature [OF b])
qed

text \<open>
  C3. Both issuers write the claims in one fixed key order: \<open>jti\<close>, \<open>iss\<close>, \<open>iat\<close>,
  \<open>customer\<close>, \<open>module\<close>, \<open>license_type\<close>, then \<open>exp\<close> if there is one, then
  \<open>instance_fingerprint\<close> if there is one. So the bytes that are signed, and with them the
  signature, are a function of the claim set: two tokens issued under the same key and key
  id, by the server or by the proof of concept, from whatever parameters and at whatever
  time, that carry the same claims, have the same payload, key for key in the same order,
  and the same signature.
\<close>

theorem issued_signature_function_of_claims:
  "(issue_license lib svc now license_id customer_id customer_name module_name
       allowed_versions license_type duration_days instance_fingerprint = Inr tok
    \<and> issue_license lib svc' now' license_id' customer_id' customer_name' module_name'
       allowed_versions' license_type' duration_days' instance_fingerprint' = Inr tok'
    \<and> private_key svc' = private_key svc \<and> key_id svc' = key_id svc
    \<and> map_of (token_payload tok) = map_of (token_payload tok')
    \<longrightarrow> map fst (token_payload tok) =
           [''jti'', ''iss'', ''iat'', ''customer'', ''module'', ''license_type'']
           @ (if map_of (token_payload tok) ''exp'' \<noteq> None then [''exp''] else [])
           @ (if map_of (token_payload tok) ''instance_fingerprint'' \<noteq> None
              then [''instance_fingerprint''] else [])
        \<and> token_payload tok = token_payload tok'
        \<and> token_signature tok = token_signature tok')
   \<and> (poc_issue_license lib iss now license_id customer_id customer_name module_name
       allowed_versions license_type duration_days instance_fingerprint = Inr tok
    \<and> poc_issue_license lib iss' now' license_id' customer_id' customer_name' module_name'
       allowed_versions' license_type' duration_days' instance_fingerprint' = Inr tok'
    \<and> poc_private_key iss' = poc_private_key iss \<and> poc_key_id iss' = poc_key_id iss
    \<and> map_of (token_payload tok) = map_of (token_payload tok')
    \<longrightarrow> map fst (token_payload tok) =
           [''jti'', ''iss'', ''iat'', ''customer'', ''module'', ''license_type'']
           @ (if map_of (token_payload tok) ''exp'' \<noteq> None then [''exp''] else [])
           @ (if map_of (token_payload tok) ''instance_fingerprint'' \<noteq> None
              then [''instance_fingerprint''] else [])
        \<and> token_payload tok = token_payload tok'
        \<and> token_signature tok = token_signature tok')"
proof (intro conjI impI)
  assume h: "issue_license lib svc now license_id customer_id customer_name module_name
       allowed_versions license_type duration_days instance_fingerprint = Inr tok
    \<and> issue_license lib svc' now' license_id' customer_id' customer_name' module_name'
       allowed_versions' license_type' duration_days' instance_fingerprint' = Inr tok'
    \<and> private_key svc' = private_key svc \<and> key_id svc' = key_id svc
    \<and> map_of (token_payload tok) = map_of (token_payload tok')"
  then have a: "issue_license lib svc now license_id customer_id customer_name module_name
       allowed_versions license_type duration_days instance_fingerprint = Inr tok"
    and b: "issue_license lib svc' now' license_id' customer_id' customer_name' module_name'
       allowed_versions' license_type' duration_days' instance_fingerprint' = Inr tok'"
    and k: "private_key svc' = private_key svc" "key_id svc' = key_id svc"
    and same: "map_of (token_payload tok) = map_of (token_payload tok')"
    by simp_all
  from issue_license_keys(1) [OF a]
  show "map fst (token_payload tok) =
           [''jti'', ''iss'', ''iat'', ''customer'', ''module'', ''license_type'']
           @ (if map_of (token_payload tok) ''exp'' \<noteq> None then [''exp''] else [])
           @ (if map_of (token_payload tok) ''instance_fingerprint'' \<noteq> None
              then [''instance_fingerprint''] else [])" .
  from issue_license_canonical(1) [OF a b same]
  show "token_payload tok = token_payload tok'" .
  from issue_license_canonical(2) [OF a b same k]
  show "token_signature tok = token_signature tok'" .
next
  assume h: "poc_issue_license lib iss now license_id customer_id customer_name module_name
       allowed_versions license_type duration_days instance_fingerprint = Inr tok
    \<and> poc_issue_license lib iss' now' license_id' customer_id' customer_name' module_name'
       allowed_versions' license_type' duration_days' instance_fingerprint' = Inr tok'
    \<and> poc_private_key iss' = poc_private_key iss \<and> poc_key_id iss' = poc_key_id iss
    \<and> map_of (token_payload tok) = map_of (token_payload tok')"
  note h' = h [unfolded poc_issue_license_eq]
  from h' have a: "issue_license lib \<lparr>private_key = poc_private_key iss, key_id = poc_key_id iss,
          issuer = poc_issuer\<rparr> now license_id customer_id customer_name module_name
       allowed_versions license_type duration_days instance_fingerprint = Inr tok"
    and b: "issue_license lib \<lparr>private_key = poc_private_key iss', key_id = poc_key_id iss',
          issuer = poc_issuer\<rparr> now' license_id' customer_id' customer_name' module_name'
       allowed_versions' license_type' duration_days' instance_fingerprint' = Inr tok'"
    and k: "poc_private_key iss' = poc_private_key iss" "poc_key_id iss' = poc_key_id iss"
    and same: "map_of (token_payload tok) = map_of (token_payload tok')"
    by blast+
  from issue_license_keys(1) [OF a]
  show "map fst (token_payload tok) =
           [''jti'', ''iss'', ''iat'', ''customer'', ''module'', ''license_type'']
           @ (if map_of (token_payload tok) ''exp'' \<noteq> None then [''exp''] else [])
           @ (if map_of (token_payload tok) ''instance_fingerprint'' \<noteq> None
              then [''instance_fingerprint''] else [])" .
  from issue_license_canonical(1) [OF a b same]
  show "token_payload tok = token_payload tok'" .
  from k issue_license_canonical(2) [OF a b same]
  show "token_signature tok = token_signature tok'" by simp
qed

lemma test_issue_later:
  "issue_license test_crypto test_service 1700000 ''L1'' ''C1'' ''Acme'' ''payroll''
     [''17'', ''18''] ''perpetual'' (Some 5) (Some [])
   = Inr (test_sign (test_issued_payload ''perpetual''))"
  by (simp add: issue_license_def valid_types_def Let_def py_int_timestamp
        test_sign_def test_service_def test_issued_payload_def)

theorem issued_signature_function_of_claims_witness:
  "test_issue ''perpetual'' None None = Inr (test_sign (test_issued_payload ''perpetual''))
   \<and> issue_license test_crypto test_service 1700000 ''L1'' ''C1'' ''Acme'' ''payroll''
        [''17'', ''18''] ''perpetual'' (Some 5) (Some [])
      = Inr (test_sign (test_issued_payload ''perpetual''))
   \<and> map fst (token_payload (test_sign (test_issued_payload ''perpetual''))) =
        [''jti'', ''iss'', ''iat'', ''customer'', ''module'', ''license_type'']
   \<and> token_signature (projr (test_issue ''perpetual'' None None))
      = token_signature (projr (issue_license test_crypto test_service 1700000 ''L1'' ''C1''
          ''Acme'' ''payroll'' [''17'', ''18''] ''perpetual'' (Some 5) (Some [])))"
proof -
  note a = test_issue_perpetual [of None]
  note b = test_issue_later
  have prem: "issue_license test_crypto test_service 1500000 ''L1'' ''C1'' ''Acme'' ''payroll''
        [''17'', ''18''] ''perpetual'' None None
      = Inr (test_sign (test_issued_payload ''perpetual''))
    \<and> issue_license test_crypto test_service 1700000 ''L1'' ''C1'' ''Acme'' ''payroll''
        [''17'', ''18''] ''perpetual'' (Some 5) (Some [])
      = Inr (test_sign (test_issued_payload ''perpetual''))
    \<and> private_key test_service = private_key test_service
    \<and> key_id test_service = key_id test_service
    \<and> map_of (token_payload (test_sign (test_issued_payload ''perpetual'')))
      = map_of (token_payload (test_sign (test_issued_payload ''perpetual'')))"
    using a [unfolded test_issue_def] b by blast
  note c = issued_signature_function_of_claims [THEN conjunct1, THEN mp, OF prem]
  have n: "map_of (token_payload (test_sign (test_issued_payload ''perpetual''))) ''exp'' = None"
    "map_of (token_payload (test_sign (test_issued_payload ''perpetual'')))
       ''instance_fingerprint'' = None"
    by (simp_all add: test_sign_payload test_issued_payload_def)
  from c [THEN conjunct1]
  have k: "map fst (token_payload (test_sign (test_issued_payload ''perpetual''))) =
        [''jti'', ''iss'', ''iat'', ''customer'', ''module'', ''license_type'']"
    unfolding n by simp
  have s: "token_signature (projr (test_issue ''perpetual'' None None))
      = token_signature (projr (issue_license test_crypto test_service 1700000 ''L1'' ''C1''
          ''Acme'' ''payroll'' [''17'', ''18''] ''perpetual'' (Some 5) (Some [])))"
    unfolding a b by simp
  from a b k s show ?thesis by blast
qed

text \<open>
  C9. \<open>get_license_info\<close> has no key among its arguments and does not read the signature:
  the same payload signed with any two keys gives the same result, and so does a token
  whose signature bytes are replaced. For a token issued by \<open>issue_license\<close> it returns the
  license id, the customer, the module with its versions, the license type, and
  \<open>is_bound\<close> true exactly when a non-empty fingerprint was passed to the issuer; the same
  token issued under another private key gives the same information, while
  \<open>verify_license\<close> refuses it with \<open>InvalidSignature\<close>, signatures made with the other key
  not verifying under the configured public key.
\<close>

theorem inspect_ignores_signature:
  assumes tok: "issue_license lib svc now license_id customer_id customer_name module_name
                  allowed_versions license_type duration_days instance_fingerprint = Inr tok"
    and tok': "issue_license lib (svc\<lparr>private_key := sk'\<rparr>) now license_id customer_id
                  customer_name module_name allowed_versions license_type duration_days
                  instance_fingerprint = Inr tok'"
    and other: "\<And>msg. \<not> ed25519_verify lib (public_key v) msg (ed25519_sign lib sk' msg)"
  shows "get_license_info lib tok' = get_license_info lib tok
     \<and> get_license_info lib tok =
         Info \<lparr>info_license_id = Some (JStr license_id),
               info_customer = JObj [(''id'', JStr customer_id), (''name'', JStr customer_name)],
               info_module = JObj [(''technical_name'', JStr module_name),
                                  (''allowed_major_versions'', JList (map JStr allowed_versions))],
               info_license_type = Some (JStr license_type),
               info_issued_at = Some (isoformat lib (py_int (timestamp (int now)))),
               info_expires_at =
                 (if license_type = ''perpetual'' then None
                  else map_option (\<lambda>d. isoformat lib (py_int (timestamp (int now + timedelta_days d))))
                         duration_days),
               info_is_bound = truthy_str instance_fingerprint\<rparr>
     \<and> verify_license lib v decode_now now' tok' m ver u d = Inl InvalidSignature
     \<and> get_license_info lib (jwt_encode lib p k1 kid1) = get_license_info lib (jwt_encode lib p k2 kid2)
     \<and> get_license_info lib (Jwt (t\<lparr>jwt_signature := s\<rparr>)) = get_license_info lib (Jwt t)"
proof -
  have info: "get_license_info lib x =
         Info \<lparr>info_license_id = Some (JStr license_id),
               info_customer = JObj [(''id'', JStr customer_id), (''name'', JStr customer_name)],
               info_module = JObj [(''technical_name'', JStr module_name),
                                  (''allowed_major_versions'', JList (map JStr allowed_versions))],
               info_license_type = Some (JStr license_type),
               info_issued_at = Some (isoformat lib (py_int (timestamp (int now)))),
               info_expires_at =
                 (if license_type = ''perpetual'' then None
                  else map_option (\<lambda>d. isoformat lib (py_int (timestamp (int now + timedelta_days d))))
                         duration_days),
               info_is_bound = truthy_str instance_fingerprint\<rparr>"
    if "issue_license lib s now license_id customer_id customer_name module_name
          allowed_versions license_type duration_days instance_fingerprint = Inr x" for s x
    using issue_license_Inr [OF that]
    by (cases duration_days) (auto simp: get_license_info_encode py_get_default_def)
  from issue_license_Inr [OF tok'] obtain p' where
    "tok' = jwt_encode lib p' sk' (key_id svc)" by auto
  with other have "verify_license lib v decode_now now' tok' m ver u d = Inl InvalidSignature"
    by (simp add: verify_license_other_key)
  moreover have "get_license_info lib (Jwt (t\<lparr>jwt_signature := s\<rparr>)) = get_license_info lib (Jwt t)"
    by (simp add: get_license_info_def jwt_decode_unverified_def)
  moreover have "get_license_info lib (jwt_encode lib p k1 kid1)
                 = get_license_info lib (jwt_encode lib p k2 kid2)"
    by (simp add: get_license_info_encode)
  ultimately show ?thesis using info [OF tok] info [OF tok'] by simp
qed

theorem inspect_ignores_signature_witness:
  "\<not> isl (test_issue ''demo'' (Some 30) (Some ''sha256:ab''))
   \<and> \<not> isl (issue_license test_crypto (test_service\<lparr>private_key := ''k2''\<rparr>) 1500000 ''L1'' ''C1''
         ''Acme'' ''payroll'' [''17'', ''18''] ''demo'' (Some 30) (Some ''sha256:ab''))
   \<and> (\<forall>msg. \<not> ed25519_verify test_crypto (public_key test_verifier) msg
                 (ed25519_sign test_crypto ''k2'' msg))
   \<and> get_license_info test_crypto
        (projr (issue_license test_crypto (test_service\<lparr>private_key := ''k2''\<rparr>) 1500000 ''L1''
           ''C1'' ''Acme'' ''payroll'' [''17'', ''18''] ''demo'' (Some 30) (Some ''sha256:ab'')))
      = get_license_info test_crypto (projr (test_issue ''demo'' (Some 30) (Some ''sha256:ab'')))
   \<and> verify_license test_crypto test_verifier 2 2
        (projr (issue_license test_crypto (test_service\<lparr>private_key := ''k2''\<rparr>) 1500000 ''L1''
           ''C1'' ''Acme'' ''payroll'' [''17'', ''18''] ''demo'' (Some 30) (Some ''sha256:ab'')))
        ''payroll'' ''18'' None None
      = Inl InvalidSignature"
proof -
  have k: "''demo'' \<in> set valid_types" by (simp add: valid_types_def)
  have r: "''demo'' \<noteq> ''perpetual'' \<longrightarrow>
             Some (30::int) \<noteq> None \<and> \<not> isl (datetime_plus_days (int 1500000) (the (Some 30)))"
    by (simp add: test_plus_days)
  from k r obtain tok where tok: "test_issue ''demo'' (Some 30) (Some ''sha256:ab'') = Inr tok"
    unfolding test_issue_def using issue_license_succeeds by blast
  from k r obtain tok' where tok':
    "issue_license test_crypto (test_service\<lparr>private_key := ''k2''\<rparr>) 1500000 ''L1''
       ''C1'' ''Acme'' ''payroll'' [''17'', ''18''] ''demo'' (Some 30) (Some ''sha256:ab'') = Inr tok'"
    using issue_license_succeeds by blast
  have other: "\<not> ed25519_verify test_crypto (public_key test_verifier) msg
                 (ed25519_sign test_crypto ''k2'' msg)" for msg
    by (simp add: test_crypto_def test_verifier_def)
  from inspect_ignores_signature [OF tok [unfolded test_issue_def] tok' other,
         of 2 2 "''payroll''" "''18''" None None]
  have "get_license_info test_crypto tok' = get_license_info test_crypto tok"
    and "verify_license test_crypto test_verifier 2 2 tok' ''payroll'' ''18'' None None
         = Inl InvalidSignature"
    by simp_all
  with tok tok' other show ?thesis by simp
qed


end
